theory Spec2Isabelle
  imports Main "HOL-Library.Sublist"
begin

section \<open>Text primitives of the Python runtime used by the kernel\<close>

text \<open>
  Python strings are modelled as \<open>string\<close>. The line feed is the only line terminator
  that \<^verbatim>\<open>io.StringIO\<close> recognises, since its \<^verbatim>\<open>newline\<close> argument defaults
  to \<^verbatim>\<open>'\n'\<close>.
\<close>

definition LF :: char where
  "LF = CHR 0x0A"

definition CR :: char where
  "CR = CHR 0x0D"

text \<open>
  \<^verbatim>\<open>StringIO.readline\<close>: the characters up to and including the first line feed, and what
  is left of the stream.
\<close>

fun readline :: "string \<Rightarrow> string \<times> string" where
  "readline [] = ([], [])"
| "readline (c # cs) =
     (if c = LF then ([c], cs)
      else (case readline cs of (l, r) \<Rightarrow> (c # l, r)))"

text \<open>
  Iterating over a \<^verbatim>\<open>StringIO\<close>: \<^verbatim>\<open>readline\<close> is called until it returns the empty
  string; every line keeps its terminator.
\<close>

function readlines :: "string \<Rightarrow> string list" where
  "readlines s =
     (if s = [] then []
      else (case readline s of (l, r) \<Rightarrow> l # readlines r))"
  by pat_completeness auto
termination
proof (relation "measure length")
  show "wf (measure length)"
    by simp
next
  fix s :: string and l r
  assume nonempty: "s \<noteq> []" and lr: "(l, r) = readline s"
  have shorter: "t \<noteq> [] \<Longrightarrow> length (snd (readline t)) < length t" for t
  proof (induction t)
    case Nil
    then show ?case by simp
  next
    case (Cons c cs)
    then show ?case
      by (cases "cs = []") (auto split: prod.splits)
  qed
  from lr have "r = snd (readline s)"
    by (metis snd_conv)
  with shorter [OF nonempty] show "(r, s) \<in> measure length"
    by simp
qed

declare readlines.simps [simp del]

text \<open>
  \<^verbatim>\<open>collections.deque(iterable, maxlen)\<close>: the bounded deque drops items from the left as
  new ones arrive, so it ends up holding the last \<open>maxlen\<close> items of the iterable.
\<close>

definition deque :: "'a list \<Rightarrow> nat \<Rightarrow> 'a list" where
  "deque xs maxlen = drop (length xs - maxlen) xs"

text \<open>\<^verbatim>\<open>sep.join(xs)\<close>\<close>

fun join :: "string \<Rightarrow> string list \<Rightarrow> string" where
  "join sep [] = []"
| "join sep [x] = x"
| "join sep (x # y # ys) = x @ sep @ join sep (y # ys)"

text \<open>
  Reading a file opened in text mode with the default \<^verbatim>\<open>newline=None\<close>: every
  \<^verbatim>\<open>'\r\n'\<close> and every other \<^verbatim>\<open>'\r'\<close> comes back as \<^verbatim>\<open>'\n'\<close>.
\<close>

fun universal_newlines :: "string \<Rightarrow> string" where
  "universal_newlines [] = []"
| "universal_newlines [c] = [if c = CR then LF else c]"
| "universal_newlines (c # d # cs) =
     (if c = CR \<and> d = LF then LF # universal_newlines cs
      else if c = CR then LF # universal_newlines (d # cs)
      else c # universal_newlines (d # cs))"

section \<open>Exceptions\<close>

text \<open>
  The classes the kernel's handlers tell apart. \<open>CalledProcessError\<close> carries the exit
  status and the captured output of the process; \<open>OSError\<close> and \<open>Exception\<close> stand for
  instances of no more specific class listed here; \<open>BaseException\<close> stands for those
  outside \<open>Exception\<close> (\<^verbatim>\<open>KeyboardInterrupt\<close>, \<^verbatim>\<open>SystemExit\<close>).
\<close>

datatype exn_class =
    AssertionError
  | CalledProcessError int string
  | PermissionError
  | FileNotFoundError
  | OSError
  | Exception
  | BaseException

text \<open>An exception value: its class, \<^verbatim>\<open>str(exc)\<close> and \<^verbatim>\<open>repr(exc)\<close>.\<close>

datatype exn = Exn (cls: exn_class) (str: string) (repr: string)

fun is_OSError :: "exn_class \<Rightarrow> bool" where
  "is_OSError PermissionError = True"
| "is_OSError FileNotFoundError = True"
| "is_OSError OSError = True"
| "is_OSError _ = False"

fun is_Exception :: "exn_class \<Rightarrow> bool" where
  "is_Exception BaseException = False"
| "is_Exception _ = True"

section \<open>The trigger\<close>

text \<open>
  The fields of the kernel object that the code reads or writes: the pending buffer
  \<^verbatim>\<open>self._code\<close>, the name of the temporary directory \<^verbatim>\<open>self._tempdir.name\<close>, and the
  execution counter that the base class keeps.
\<close>

record kernel =
  code_buf :: "string list"
  tempdir :: string
  execution_count :: int

definition marker :: string where
  "marker = ''-- compile-code''"

definition assertion_failure :: exn where
  "assertion_failure =
     Exn AssertionError
       ''Should not be querying for compilation with no code!''
       (''AssertionError('' @ [CHR 0x27] @
        ''Should not be querying for compilation with no code!'' @ [CHR 0x27] @ '')'')"

text \<open>
  \<^verbatim>\<open>_should_compile\<close>: the assertion on the buffer, then the deque of length one over the
  lines of the cell appended last.
\<close>

definition should_compile :: "kernel \<Rightarrow> exn + bool" where
  "should_compile k =
     (if code_buf k = [] then Inl assertion_failure
      else
        (let lines = deque (readlines (last (code_buf k))) 1
         in Inr (if lines \<noteq> [] then hd lines = marker else False)))"


section \<open>Decimal rendering and paths\<close>

definition digit :: "nat \<Rightarrow> char" where
  "digit d = char_of (48 + d)"

function str_nat :: "nat \<Rightarrow> string" where
  "str_nat n = (if n < 10 then [digit n] else str_nat (n div 10) @ [digit (n mod 10)])"
  by pat_completeness auto
termination
  by (relation "measure id") auto

declare str_nat.simps [simp del]

text \<open>\<^verbatim>\<open>str(i)\<close> for a Python integer.\<close>

definition str_int :: "int \<Rightarrow> string" where
  "str_int i = (if i < 0 then ''-'' @ str_nat (nat (- i)) else str_nat (nat i))"

text \<open>\<^verbatim>\<open>os.path.join(a, b)\<close> of \<^verbatim>\<open>posixpath\<close>, for two components.\<close>

definition path_join :: "string \<Rightarrow> string \<Rightarrow> string" where
  "path_join a b =
     (if b \<noteq> [] \<and> hd b = CHR ''/'' then b
      else if a = [] \<or> last a = CHR ''/'' then a @ b
      else a @ ''/'' @ b)"

section \<open>The world outside the kernel object\<close>

text \<open>
  A message published with \<^verbatim>\<open>send_response\<close> on the output channel: its type, and the
  \<^verbatim>\<open>metadata\<close> and \<^verbatim>\<open>data\<close> dictionaries of its content, as association lists.
\<close>

record message =
  msg_type :: string
  metadata :: "(string \<times> string) list"
  data :: "(string \<times> string) list"

type_synonym filesystem = "string \<rightharpoonup> string"

text \<open>One call of \<^verbatim>\<open>subprocess.run\<close>: the command, the working directory, and the files
  the process finds when it starts.\<close>

record invocation =
  args :: "string list"
  cwd :: string
  seen :: filesystem

text \<open>
  The world: the regular files by path (a relative path is one in the working directory
  of the kernel process), the messages published so far, and the processes started so far.
\<close>

record world =
  files :: filesystem
  iopub :: "message list"
  invocations :: "invocation list"

text \<open>
  \<^verbatim>\<open>subprocess.run(..., check=True, stdout=PIPE, stderr=STDOUT)\<close> either returns, with the
  captured output of a process that exited with status zero, or raises: a
  \<open>CalledProcessError\<close> for a process that exited with another status, anything else when
  the process could not be run. Either way the process may have changed the files.
\<close>

datatype run_outcome =
    Returned string filesystem
  | Raised exn filesystem

text \<open>
  What the kernel cannot decide:
  \<^item> \<open>copy_fault\<close>: what \<^verbatim>\<open>shutil.copy\<close> raises, if anything, and \<open>copy_residue\<close>: what a
    copy that raised has left at the destination, nothing or the text written before the
    failure (\<^verbatim>\<open>shutil.copy\<close> writes the content first and sets the mode afterwards);
  \<^item> \<open>write_fault\<close>: what opening or writing the input file raises, if anything, and
    \<open>write_residue\<close>: what a write that raised has left at the path, nothing when the file
    could not be opened, otherwise the text written before the failure;
  \<^item> \<open>elm_make\<close>: what the compiler does for a command line, a working directory and the
    files it finds;
  \<^item> \<open>read_fault\<close>: what reading a file that holds a given text raises, if anything
    (\<^verbatim>\<open>UnicodeDecodeError\<close>);
  \<^item> \<open>remove_refused\<close>: whether \<^verbatim>\<open>os.remove\<close> fails on a file that exists, and then the
    texts (\<^verbatim>\<open>str\<close> and \<^verbatim>\<open>repr\<close>) of the \<^verbatim>\<open>OSError\<close> it raises;
  \<^item> \<open>enoent_text\<close>: the texts of the \<^verbatim>\<open>FileNotFoundError\<close> that the runtime raises for a
    path that does not exist.
\<close>

record env =
  copy_fault :: "exn option"
  copy_residue :: "string option"
  write_fault :: "exn option"
  write_residue :: "string option"
  elm_make :: "string list \<Rightarrow> string \<Rightarrow> filesystem \<Rightarrow> run_outcome"
  read_fault :: "string \<Rightarrow> exn option"
  remove_refused :: "string \<Rightarrow> (string \<times> string) option"
  enoent_text :: "string \<Rightarrow> string \<times> string"

definition file_not_found :: "env \<Rightarrow> string \<Rightarrow> exn" where
  "file_not_found e path =
     Exn FileNotFoundError (fst (enoent_text e path)) (snd (enoent_text e path))"

text \<open>The exception class of a process that exited with a status other than zero.\<close>

fun is_CalledProcessError :: "exn_class \<Rightarrow> bool" where
  "is_CalledProcessError (CalledProcessError rc out) = True"
| "is_CalledProcessError _ = False"

section \<open>File operations\<close>

text \<open>
  \<^verbatim>\<open>os.remove(path)\<close> raises \<^verbatim>\<open>FileNotFoundError\<close> for a path that is not there, and
  for a file that is there it either removes it or fails with an \<^verbatim>\<open>OSError\<close> and leaves
  the file.
\<close>

definition os_remove :: "env \<Rightarrow> string \<Rightarrow> world \<Rightarrow> world \<times> (exn + unit)" where
  "os_remove e path w =
     (if path \<in> dom (files w) then
        (case remove_refused e path of
           None \<Rightarrow> (w\<lparr>files := (files w)(path := None)\<rparr>, Inr ())
         | Some (s, r) \<Rightarrow> (w, Inl (Exn OSError s r)))
      else (w, Inl (file_not_found e path)))"

text \<open>
  \<^verbatim>\<open>_tempfile\<close>: the context manager yields the path inside the temporary directory, and on
  exit, however the body ended, removes the file with \<^verbatim>\<open>OSError\<close> suppressed. The
  exception that leaves the \<^verbatim>\<open>finally\<close> block is the one of the removal when that one is
  not suppressed, the body's otherwise.
\<close>

definition tempfile ::
  "env \<Rightarrow> kernel \<Rightarrow> string \<Rightarrow> (string \<Rightarrow> world \<Rightarrow> world \<times> (exn + unit)) \<Rightarrow>
   world \<Rightarrow> world \<times> (exn + unit)" where
  "tempfile e k filename body w =
     (let path = path_join (tempdir k) filename
      in case body path w of
           (w1, r) \<Rightarrow>
             (case os_remove e path w1 of
                (w2, Inr u) \<Rightarrow> (w2, r)
              | (w2, Inl x) \<Rightarrow> if is_OSError (cls x) then (w2, r) else (w2, Inl x)))"

text \<open>\<^verbatim>\<open>with open(infile, mode='wt') as f: f.write(code)\<close>\<close>

definition write_text :: "env \<Rightarrow> string \<Rightarrow> string \<Rightarrow> world \<Rightarrow> world \<times> (exn + unit)" where
  "write_text e path text w =
     (case write_fault e of
        Some x \<Rightarrow>
          (case write_residue e of
             None \<Rightarrow> (w, Inl x)
           | Some left \<Rightarrow> (w\<lparr>files := (files w)(path \<mapsto> left)\<rparr>, Inl x))
      | None \<Rightarrow> (w\<lparr>files := (files w)(path \<mapsto> text)\<rparr>, Inr ()))"

text \<open>
  \<^verbatim>\<open>with open(outfile, mode='rt') as f: javascript = f.read()\<close>: the path must exist,
  the content must decode, and what is read has its line ends translated.
\<close>

definition read_text :: "env \<Rightarrow> string \<Rightarrow> world \<Rightarrow> exn + string" where
  "read_text e path w =
     (case files w path of
        None \<Rightarrow> Inl (file_not_found e path)
      | Some text \<Rightarrow>
          (case read_fault e text of
             Some x \<Rightarrow> Inl x
           | None \<Rightarrow> Inr (universal_newlines text)))"

text \<open>The call of the compiler, recorded in the world.\<close>

definition subprocess_run ::
  "env \<Rightarrow> string list \<Rightarrow> string \<Rightarrow> world \<Rightarrow> world \<times> (exn + string)" where
  "subprocess_run e argv dir w =
     (let w1 = w\<lparr>invocations :=
                   invocations w @ [\<lparr>args = argv, cwd = dir, seen = files w\<rparr>]\<rparr>
      in case elm_make e argv dir (files w) of
           Returned out fs \<Rightarrow> (w1\<lparr>files := fs\<rparr>, Inr out)
         | Raised x fs \<Rightarrow> (w1\<lparr>files := fs\<rparr>, Inl x))"

section \<open>Messages to the client\<close>

definition send_response :: "string \<Rightarrow> (string \<times> string) list \<Rightarrow> world \<Rightarrow> world" where
  "send_response mtype content w =
     w\<lparr>iopub := iopub w @ [\<lparr>msg_type = mtype, metadata = [], data = content\<rparr>]\<rparr>"

text \<open>\<^verbatim>\<open>_send_error_result\<close>\<close>

definition send_error_result :: "string \<Rightarrow> world \<Rightarrow> world" where
  "send_error_result msg w =
     send_response ''display_data'' [(''text/html'', ''<pre>'' @ msg @ ''</pre>'')] w"

text \<open>
  The template of \<^verbatim>\<open>_send_success_result\<close> after \<^verbatim>\<open>str.format\<close>: doubled braces
  have become single ones and the three fields are filled in, their text taken as it is.
\<close>

definition template_format :: "string \<Rightarrow> string \<Rightarrow> string \<Rightarrow> string" where
  "template_format js module_name div_id =
     [LF] @
     ''            var defineElm = function(cb) {'' @ [LF] @
     ''                if (this.Elm) {'' @ [LF] @
     ''                    this.oldElm = this.Elm;'' @ [LF] @
     ''                }'' @ [LF] @
     ''                var define = null;'' @ [LF] @
     [LF] @
     ''                '' @ js @ [LF] @
     [LF] @
     ''                cb();'' @ [LF] @
     ''            }'' @ [LF] @
     ''            ;'' @ [LF] @
     [LF] @
     ''            var obj = new Object();'' @ [LF] @
     ''            defineElm.bind(obj)(function(){'' @ [LF] @
     ''                var mountNode = document.getElementById('' @ [CHR 0x27] @ div_id @
       [CHR 0x27] @ '');'' @ [LF] @
     ''                obj.Elm. '' @ module_name @ ''.embed(mountNode);'' @ [LF] @
     ''            });'' @ [LF] @
     ''        ''"

text \<open>\<^verbatim>\<open>_send_success_result\<close>\<close>

definition send_success_result :: "kernel \<Rightarrow> string \<Rightarrow> world \<Rightarrow> world" where
  "send_success_result k javascript w =
     (let module_name = ''Main'';
          div_id = ''elm-div-'' @ str_int (execution_count k);
          javascript' = template_format javascript module_name div_id;
          w1 = send_response ''display_data''
                 [(''text/html'', ''<div id='' @ [CHR 0x22] @ div_id @ [CHR 0x22] @ ''></div>'')] w
      in send_response ''display_data'' [(''application/javascript'', javascript')] w1)"

section \<open>The pipeline\<close>

text \<open>
  \<^verbatim>\<open>shutil.copy('elm-package.json', self._tempdir.name)\<close>: the copy lands in the
  directory under the name of the source; a copy that raises leaves there what the
  environment says.
\<close>

definition shutil_copy :: "env \<Rightarrow> string \<Rightarrow> string \<Rightarrow> string \<Rightarrow> world \<Rightarrow> world \<times> (exn + unit)" where
  "shutil_copy e content dir name w =
     (case copy_fault e of
        None \<Rightarrow> (w\<lparr>files := (files w)(path_join dir name \<mapsto> content)\<rparr>, Inr ())
      | Some x \<Rightarrow>
          (case copy_residue e of
             None \<Rightarrow> (w, Inl x)
           | Some left \<Rightarrow> (w\<lparr>files := (files w)(path_join dir name \<mapsto> left)\<rparr>, Inl x)))"

text \<open>\<^verbatim>\<open>_copy_elm_package_file_to_tempdir\<close>\<close>

definition copy_elm_package_file_to_tempdir ::
  "env \<Rightarrow> kernel \<Rightarrow> world \<Rightarrow> world \<times> (exn + unit)" where
  "copy_elm_package_file_to_tempdir e k w =
     (case files w ''elm-package.json'' of
        None \<Rightarrow> (w, Inr ())
      | Some manifest \<Rightarrow>
          (case shutil_copy e manifest (tempdir k) ''elm-package.json'' w of
             (w1, Inr u) \<Rightarrow> (w1, Inr ())
           | (w1, Inl x) \<Rightarrow>
               if cls x = PermissionError then
                 (send_error_result
                    (''Permission error: could not copy elm-package.json to '' @ tempdir k) w1,
                  Inr ())
               else (w1, Inl x)))"

text \<open>The two handlers of the \<^verbatim>\<open>try\<close> statement in \<^verbatim>\<open>_compile\<close>, in their order.\<close>

definition compile_handlers :: "exn \<Rightarrow> world \<Rightarrow> world \<times> (exn + unit)" where
  "compile_handlers x w =
     (case cls x of
        CalledProcessError rc out \<Rightarrow> (send_error_result out w, Inr ())
      | c \<Rightarrow>
          if is_Exception c then (send_error_result (repr x) w, Inl x)
          else (w, Inl x))"

text \<open>The body of the \<^verbatim>\<open>with\<close> statement in \<^verbatim>\<open>_compile\<close>.\<close>

definition compile_body ::
  "env \<Rightarrow> kernel \<Rightarrow> string \<Rightarrow> string \<Rightarrow> string \<Rightarrow> world \<Rightarrow> world \<times> (exn + unit)" where
  "compile_body e k code infile outfile w =
     (case write_text e infile code w of
        (w1, Inl x) \<Rightarrow> (w1, Inl x)
      | (w1, Inr u) \<Rightarrow>
          (case subprocess_run e
                  [''elm-make'', infile, ''--yes'', ''--output='' @ outfile] (tempdir k) w1 of
             (w2, Inl x) \<Rightarrow> compile_handlers x w2
           | (w2, Inr out) \<Rightarrow>
               (case read_text e outfile w2 of
                  Inl x \<Rightarrow> compile_handlers x w2
                | Inr javascript \<Rightarrow> (send_success_result k javascript w2, Inr ()))))"

text \<open>\<^verbatim>\<open>_compile\<close>\<close>

definition compile :: "env \<Rightarrow> kernel \<Rightarrow> string \<Rightarrow> world \<Rightarrow> world \<times> (exn + unit)" where
  "compile e k code w =
     (case copy_elm_package_file_to_tempdir e k w of
        (w0, Inl x) \<Rightarrow> (w0, Inl x)
      | (w0, Inr u) \<Rightarrow>
          tempfile e k ''input.elm'' (\<lambda>infile.
            tempfile e k ''index.js'' (\<lambda>outfile.
              compile_body e k code infile outfile)) w0)"

section \<open>Executing a cell\<close>

record reply =
  status :: string
  reply_execution_count :: int
  payload :: "string list option"
  user_expressions :: "(string \<times> string) list option"

definition ok_reply :: "kernel \<Rightarrow> reply" where
  "ok_reply k =
     \<lparr>status = ''ok'', reply_execution_count = execution_count k,
      payload = Some [], user_expressions = Some []\<rparr>"

definition error_reply :: "kernel \<Rightarrow> reply" where
  "error_reply k =
     \<lparr>status = ''error'', reply_execution_count = execution_count k,
      payload = None, user_expressions = None\<rparr>"

text \<open>
  \<^verbatim>\<open>do_execute\<close>: the kernel object and the world after the call, and what the call gives
  the host runtime, a reply or an exception.
\<close>

definition do_execute ::
  "env \<Rightarrow> kernel \<Rightarrow> world \<Rightarrow> string \<Rightarrow> kernel \<times> world \<times> (exn + reply)" where
  "do_execute e k w code =
     (let k1 = k\<lparr>code_buf := code_buf k @ [code]\<rparr>
      in case should_compile k1 of
           Inl x \<Rightarrow> (k1, w, Inl x)
         | Inr False \<Rightarrow> (k1, w, Inr (ok_reply k1))
         | Inr True \<Rightarrow>
             (let code' = join [LF] (code_buf k1);
                  k2 = k1\<lparr>code_buf := []\<rparr>
              in case compile e k2 code' w of
                   (w1, Inr u) \<Rightarrow> (k2, w1, Inr (ok_reply k2))
                 | (w1, Inl x) \<Rightarrow>
                     if is_Exception (cls x)
                     then (k2, send_error_result (str x) w1, Inr (error_reply k2))
                     else (k2, w1, Inl x)))"


section \<open>The host runtime\<close>

text \<open>\<^verbatim>\<open>__init__\<close>: an empty buffer and a fresh temporary directory.\<close>

definition init_kernel :: "string \<Rightarrow> kernel" where
  "init_kernel dir = \<lparr>code_buf = [], tempdir = dir, execution_count = 0\<rparr>"

text \<open>
  The host runtime delivers one request at a time. Before each it sets the execution
  counter; the environment may differ from one request to the next. A request is the
  environment it meets, the counter and the text of the cell.
\<close>

type_synonym request = "env \<times> int \<times> string"

fun run_cells :: "request list \<Rightarrow> kernel \<Rightarrow> world \<Rightarrow> kernel \<times> world" where
  "run_cells [] k w = (k, w)"
| "run_cells ((e, n, code) # rest) k w =
     (case do_execute e (k\<lparr>execution_count := n\<rparr>) w code of
        (k1, w1, r) \<Rightarrow> run_cells rest k1 w1)"

section \<open>Notions of the specification\<close>

text \<open>The first line of a cell: the text up to the first line break, or the whole cell.\<close>

definition first_line :: "string \<Rightarrow> string" where
  "first_line s = takeWhile (\<lambda>c. c \<noteq> LF) s"

text \<open>The last line of a cell: the text after the last line break, or the whole cell.\<close>

definition last_line :: "string \<Rightarrow> string" where
  "last_line s = rev (takeWhile (\<lambda>c. c \<noteq> LF) (rev s))"

text \<open>A trigger-firing cell: one on which the trigger, evaluated right after the cell was
  appended, returns true. The trigger reads nothing but that cell.\<close>

definition cell_fires :: "string \<Rightarrow> bool" where
  "cell_fires c = (should_compile (init_kernel []\<lparr>code_buf := [c]\<rparr>) = Inr True)"

text \<open>The cells submitted since the last trigger-firing cell.\<close>

definition since_last_trigger :: "string list \<Rightarrow> string list" where
  "since_last_trigger cells = rev (takeWhile (\<lambda>c. \<not> cell_fires c) (rev cells))"

text \<open>Reading a decimal numeral back.\<close>

definition digit_value :: "char \<Rightarrow> nat" where
  "digit_value c = of_char c - 48"

definition nat_of_digits :: "string \<Rightarrow> nat" where
  "nat_of_digits s = foldl (\<lambda>a c. 10 * a + digit_value c) 0 s"

text \<open>The two scratch files of a kernel.\<close>

definition infile_of :: "kernel \<Rightarrow> string" where
  "infile_of k = path_join (tempdir k) ''input.elm''"

definition outfile_of :: "kernel \<Rightarrow> string" where
  "outfile_of k = path_join (tempdir k) ''index.js''"

text \<open>The command line of the compiler, and the manifest once copied.\<close>

definition elm_make_command :: "kernel \<Rightarrow> string list" where
  "elm_make_command k = [''elm-make'', infile_of k, ''--yes'', ''--output='' @ outfile_of k]"

definition manifest_copy_of :: "kernel \<Rightarrow> string" where
  "manifest_copy_of k = path_join (tempdir k) ''elm-package.json''"

text \<open>A display message with one entry in its \<^verbatim>\<open>data\<close> dictionary.\<close>

definition display :: "string \<Rightarrow> string \<Rightarrow> message" where
  "display mime text = \<lparr>msg_type = ''display_data'', metadata = [], data = [(mime, text)]\<rparr>"

text \<open>
  The files after the two context managers of \<^verbatim>\<open>_compile\<close> have left: each scratch file
  is gone unless its removal is refused.
\<close>

definition cleaned :: "env \<Rightarrow> kernel \<Rightarrow> filesystem \<Rightarrow> filesystem" where
  "cleaned e k fs =
     (let fs1 = (if remove_refused e (outfile_of k) = None then fs(outfile_of k := None) else fs)
      in if remove_refused e (infile_of k) = None then fs1(infile_of k := None) else fs1)"

section \<open>Concrete scenarios\<close>

text \<open>A kernel with an empty buffer at execution count 3, and a world with no files.\<close>

definition demo_kernel :: kernel where
  "demo_kernel = (init_kernel ''/tmp/elm'')\<lparr>execution_count := 3\<rparr>"

definition empty_world :: world where
  "empty_world = \<lparr>files = Map.empty, iopub = [], invocations = []\<rparr>"

text \<open>A world whose working directory holds a project manifest.\<close>

definition manifest_world :: world where
  "manifest_world = empty_world\<lparr>files := [''elm-package.json'' \<mapsto> ''{}'']\<rparr>"

text \<open>An environment around a compiler stub; nothing else fails.\<close>

definition stub_env :: "(filesystem \<Rightarrow> run_outcome) \<Rightarrow> env" where
  "stub_env stub =
     \<lparr>copy_fault = None, copy_residue = None, write_fault = None, write_residue = None,
      elm_make = (\<lambda>argv dir fs. stub fs),
      read_fault = (\<lambda>text. None),
      remove_refused = (\<lambda>path. None),
      enoent_text = (\<lambda>path.
        (''[Errno 2] No such file or directory: '' @ [CHR 0x27] @ path @ [CHR 0x27],
         ''FileNotFoundError(2, '' @ [CHR 0x27] @ ''No such file or directory'' @ [CHR 0x27] @ '')''))\<rparr>"

text \<open>The stub that exits 0 and writes a script to the output path.\<close>

definition good_stub :: "filesystem \<Rightarrow> run_outcome" where
  "good_stub fs = Returned [] (fs(''/tmp/elm/index.js'' \<mapsto> ''var x = 1;''))"

text \<open>The stub that exits 1 with the captured output \<^verbatim>\<open>TYPE MISMATCH\<close>.\<close>

definition failing_stub :: "filesystem \<Rightarrow> run_outcome" where
  "failing_stub fs =
     Raised (Exn (CalledProcessError 1 ''TYPE MISMATCH'')
               ''Command returned non-zero exit status 1.''
               ''CalledProcessError(1)'') fs"

text \<open>No compiler executable: the launch raises \<^verbatim>\<open>FileNotFoundError\<close>.\<close>

definition missing_stub :: "filesystem \<Rightarrow> run_outcome" where
  "missing_stub fs =
     Raised (Exn FileNotFoundError
               (''[Errno 2] No such file or directory: '' @ [CHR 0x27] @ ''elm-make'' @ [CHR 0x27])
               (''FileNotFoundError(2, '' @ [CHR 0x27] @ ''No such file or directory'' @
                [CHR 0x27] @ '')'')) fs"

text \<open>The copy of the manifest is refused.\<close>

definition permission_denied :: exn where
  "permission_denied =
     Exn PermissionError
       (''[Errno 13] Permission denied: '' @ [CHR 0x27] @ ''/tmp/elm/elm-package.json'' @ [CHR 0x27])
       (''PermissionError(13, '' @ [CHR 0x27] @ ''Permission denied'' @ [CHR 0x27] @ '')'')"


text \<open>The stub that exits 0 and writes nothing.\<close>

definition silent_stub :: "filesystem \<Rightarrow> run_outcome" where
  "silent_stub fs = Returned [] fs"


text \<open>Failures of the disk: no space left, and a removal that is not permitted.\<close>

definition disk_full :: exn where
  "disk_full =
     Exn OSError
       ''[Errno 28] No space left on device''
       (''OSError(28, '' @ [CHR 0x27] @ ''No space left on device'' @ [CHR 0x27] @ '')'')"

definition not_permitted :: "string \<times> string" where
  "not_permitted =
     (''[Errno 1] Operation not permitted'',
      ''PermissionError(1, '' @ [CHR 0x27] @ ''Operation not permitted'' @ [CHR 0x27] @ '')'')"

text \<open>A world in which a manifest is there and an input file was left behind.\<close>

definition stale_world :: world where
  "stale_world =
     empty_world\<lparr>files := [''elm-package.json'' \<mapsto> ''{}'', ''/tmp/elm/input.elm'' \<mapsto> ''stale'']\<rparr>"

section \<open>Lines of a cell\<close>

lemma readline_no_LF: "LF \<notin> set s \<Longrightarrow> readline s = (s, [])"
  by (induction s) auto

lemma readline_LF: "LF \<notin> set a \<Longrightarrow> readline (a @ LF # b) = (a @ [LF], b)"
  by (induction a) auto

lemma readlines_Nil [simp]: "readlines [] = []"
  by (simp add: readlines.simps)

lemma readlines_no_LF: "LF \<notin> set s \<Longrightarrow> s \<noteq> [] \<Longrightarrow> readlines s = [s]"
  by (subst readlines.simps) (simp add: readline_no_LF)

lemma readlines_LF: "LF \<notin> set a \<Longrightarrow> readlines (a @ LF # b) = (a @ [LF]) # readlines b"
  by (subst readlines.simps) (simp add: readline_LF)

lemma split_first_LF: "LF \<in> set s \<Longrightarrow> \<exists>a b. s = a @ LF # b \<and> LF \<notin> set a"
  by (metis split_list_first)

text \<open>The last line read from a cell ends where the cell ends.\<close>

lemma readlines_last_char:
  "s \<noteq> [] \<Longrightarrow> readlines s \<noteq> [] \<and> last (last (readlines s)) = last s"
proof (induction s rule: length_induct)
  case (1 s)
  show ?case
  proof (cases "LF \<in> set s")
    case False
    with "1.prems" show ?thesis by (simp add: readlines_no_LF)
  next
    case True
    then obtain a b where s: "s = a @ LF # b" and a: "LF \<notin> set a"
      using split_first_LF by blast
    have lines: "readlines s = (a @ [LF]) # readlines b"
      by (simp add: s a readlines_LF)
    show ?thesis
    proof (cases "b = []")
      case True
      then show ?thesis unfolding lines by (simp add: s)
    next
      case False
      moreover have "length b < length s" by (simp add: s)
      ultimately have "readlines b \<noteq> [] \<and> last (last (readlines b)) = last b"
        using "1.IH" by blast
      with False show ?thesis unfolding lines by (simp add: s)
    qed
  qed
qed

lemma readlines_terminated:
  "s \<noteq> [] \<Longrightarrow> last s = LF \<Longrightarrow> readlines s \<noteq> [] \<and> last (last (readlines s)) = LF"
  using readlines_last_char [of s] by simp

text \<open>Reading splits at a line feed: what precedes it has no influence on what follows.\<close>

lemma readlines_append:
  "p = [] \<or> last p = LF \<Longrightarrow> readlines (p @ t) = readlines p @ readlines t"
proof (induction p rule: length_induct)
  case (1 p)
  show ?case
  proof (cases "p = []")
    case True
    then show ?thesis by simp
  next
    case False
    with "1.prems" have "LF \<in> set p"
      by (metis last_in_set)
    then obtain a b where p: "p = a @ LF # b" and a: "LF \<notin> set a"
      using split_first_LF by blast
    have b: "b = [] \<or> last b = LF"
      using "1.prems" False by (auto simp: p split: if_splits)
    have "length b < length p" by (simp add: p)
    then have IH: "readlines (b @ t) = readlines b @ readlines t"
      using "1.IH" b by blast
    have "readlines (p @ t) = (a @ [LF]) # readlines (b @ t)"
      using readlines_LF [OF a, of "b @ t"] by (simp add: p)
    then show ?thesis
      by (simp add: IH p a readlines_LF)
  qed
qed

lemma last_line_split:
  "\<exists>p. s = p @ last_line s \<and> (p = [] \<or> last p = LF)"
proof -
  have "rev s = takeWhile (\<lambda>c. c \<noteq> LF) (rev s) @ dropWhile (\<lambda>c. c \<noteq> LF) (rev s)"
    by simp
  then have "s = rev (dropWhile (\<lambda>c. c \<noteq> LF) (rev s)) @ last_line s"
    unfolding last_line_def by (metis rev_append rev_rev_ident)
  moreover have "rev (dropWhile (\<lambda>c. c \<noteq> LF) (rev s)) = [] \<or>
      last (rev (dropWhile (\<lambda>c. c \<noteq> LF) (rev s))) = LF"
    by (metis (mono_tags, lifting) hd_dropWhile last_rev rev_is_Nil_conv)
  ultimately show ?thesis by blast
qed

lemma last_line_no_LF: "LF \<notin> set (last_line s)"
  unfolding last_line_def by (auto dest: set_takeWhileD)

lemma marker_last: "marker \<noteq> [] \<and> last marker \<noteq> LF \<and> last marker \<noteq> CR"
  by (simp add: marker_def LF_def CR_def)

lemma deque_one: "xs \<noteq> [] \<Longrightarrow> deque xs (Suc 0) = [last xs]"
  by (cases xs rule: rev_cases) (simp_all add: deque_def)

lemma deque_Nil: "deque [] n = []"
  by (simp add: deque_def)

text \<open>The trigger on a buffer that is not empty compares the last line read from the last
  cell with the marker.\<close>

lemma should_compile_last:
  "code_buf k \<noteq> [] \<Longrightarrow>
   should_compile k =
     Inr (readlines (last (code_buf k)) \<noteq> [] \<and> last (readlines (last (code_buf k))) = marker)"
  by (cases "readlines (last (code_buf k)) = []")
    (simp_all add: should_compile_def deque_one deque_Nil Let_def)

lemma cell_fires_last: "cell_fires c \<longleftrightarrow> readlines c \<noteq> [] \<and> last (readlines c) = marker"
  by (simp add: cell_fires_def init_kernel_def should_compile_last)

lemma should_compile_cell_fires:
  "code_buf k \<noteq> [] \<Longrightarrow> should_compile k = Inr (cell_fires (last (code_buf k)))"
  by (simp add: should_compile_last cell_fires_last)

lemma cell_fires_iff: "cell_fires c \<longleftrightarrow> last_line c = marker"
proof -
  obtain p where c: "c = p @ last_line c" and p: "p = [] \<or> last p = LF"
    using last_line_split by blast
  have lines: "readlines c = readlines p @ readlines (last_line c)"
    using readlines_append [OF p, of "last_line c"] c by simp
  show ?thesis
  proof (cases "last_line c = []")
    case True
    then have "c = p" using c by simp
    then have "\<not> cell_fires c"
      using p readlines_terminated [of p] marker_last
      by (cases "p = []") (auto simp: cell_fires_last)
    with True marker_last show ?thesis by auto
  next
    case False
    then have "readlines (last_line c) = [last_line c]"
      by (simp add: readlines_no_LF last_line_no_LF)
    then show ?thesis by (simp add: cell_fires_last lines)
  qed
qed

section \<open>Steps of the pipeline\<close>

lemma scratch_paths_distinct:
  "infile_of k \<noteq> outfile_of k" "outfile_of k \<noteq> infile_of k"
  "manifest_copy_of k \<noteq> infile_of k" "manifest_copy_of k \<noteq> outfile_of k"
  by (simp_all add: infile_of_def outfile_of_def manifest_copy_of_def path_join_def)

lemma send_response_fields [simp]:
  "files (send_response t c w) = files w"
  "invocations (send_response t c w) = invocations w"
  "iopub (send_response t c w) = iopub w @ [\<lparr>msg_type = t, metadata = [], data = c\<rparr>]"
  by (simp_all add: send_response_def)

lemma send_error_result_fields [simp]:
  "files (send_error_result msg w) = files w"
  "invocations (send_error_result msg w) = invocations w"
  "iopub (send_error_result msg w) = iopub w @ [display ''text/html'' (''<pre>'' @ msg @ ''</pre>'')]"
  by (simp_all add: send_error_result_def display_def)

lemma send_success_result_fields [simp]:
  "files (send_success_result k js w) = files w"
  "invocations (send_success_result k js w) = invocations w"
  "iopub (send_success_result k js w) =
     iopub w @
     [display ''text/html''
        (''<div id='' @ [CHR 0x22] @ ''elm-div-'' @ str_int (execution_count k) @ [CHR 0x22] @ ''></div>''),
      display ''application/javascript''
        (template_format js ''Main'' (''elm-div-'' @ str_int (execution_count k)))]"
  by (simp_all add: send_success_result_def display_def Let_def)

text \<open>
  The context manager: the body's result is the result, and the path is gone afterwards
  unless the removal is refused.
\<close>

lemma tempfile_fields:
  "snd (tempfile e k f body w) = snd (body (path_join (tempdir k) f) w)"
  "iopub (fst (tempfile e k f body w)) = iopub (fst (body (path_join (tempdir k) f) w))"
  "invocations (fst (tempfile e k f body w)) =
     invocations (fst (body (path_join (tempdir k) f) w))"
  "files (fst (tempfile e k f body w)) =
     (if remove_refused e (path_join (tempdir k) f) = None
      then (files (fst (body (path_join (tempdir k) f) w)))(path_join (tempdir k) f := None)
      else files (fst (body (path_join (tempdir k) f) w)))"
proof -
  obtain w1 r where b: "body (path_join (tempdir k) f) w = (w1, r)"
    by (cases "body (path_join (tempdir k) f) w")
  have absent: "(files w1)(path_join (tempdir k) f := None) = files w1"
    if "path_join (tempdir k) f \<notin> dom (files w1)"
    using that by (simp add: domIff)
  show "snd (tempfile e k f body w) = snd (body (path_join (tempdir k) f) w)"
    "iopub (fst (tempfile e k f body w)) = iopub (fst (body (path_join (tempdir k) f) w))"
    "invocations (fst (tempfile e k f body w)) =
       invocations (fst (body (path_join (tempdir k) f) w))"
    by (auto simp: tempfile_def os_remove_def file_not_found_def b Let_def
        split: option.splits prod.splits)
  show "files (fst (tempfile e k f body w)) =
     (if remove_refused e (path_join (tempdir k) f) = None
      then (files (fst (body (path_join (tempdir k) f) w)))(path_join (tempdir k) f := None)
      else files (fst (body (path_join (tempdir k) f) w)))"
    using absent
    by (cases "path_join (tempdir k) f \<in> dom (files w1)")
      (auto simp: tempfile_def os_remove_def file_not_found_def b Let_def
        split: option.splits prod.splits)
qed

text \<open>The manifest step leaves the scratch files and the record of processes alone.\<close>

lemma copy_stage_other_fields [simp]:
  "invocations (fst (copy_elm_package_file_to_tempdir e k w)) = invocations w"
  "files (fst (copy_elm_package_file_to_tempdir e k w)) (infile_of k) = files w (infile_of k)"
  "files (fst (copy_elm_package_file_to_tempdir e k w)) (outfile_of k) = files w (outfile_of k)"
  using scratch_paths_distinct [of k]
  by (auto simp: copy_elm_package_file_to_tempdir_def shutil_copy_def manifest_copy_of_def
      split: option.splits)

lemma copy_stage_raises:
  "snd (copy_elm_package_file_to_tempdir e k w) = Inl x \<Longrightarrow>
   iopub (fst (copy_elm_package_file_to_tempdir e k w)) = iopub w"
  by (auto simp: copy_elm_package_file_to_tempdir_def shutil_copy_def
      split: option.splits if_splits)

lemma compile_entered:
  assumes "snd (copy_elm_package_file_to_tempdir e k w) = Inr ()"
  shows "snd (compile e k code w) =
           snd (compile_body e k code (infile_of k) (outfile_of k)
                  (fst (copy_elm_package_file_to_tempdir e k w)))"
    and "iopub (fst (compile e k code w)) =
           iopub (fst (compile_body e k code (infile_of k) (outfile_of k)
                  (fst (copy_elm_package_file_to_tempdir e k w))))"
    and "invocations (fst (compile e k code w)) =
           invocations (fst (compile_body e k code (infile_of k) (outfile_of k)
                  (fst (copy_elm_package_file_to_tempdir e k w))))"
    and "files (fst (compile e k code w)) =
           cleaned e k (files (fst (compile_body e k code (infile_of k) (outfile_of k)
                  (fst (copy_elm_package_file_to_tempdir e k w)))))"
proof -
  obtain w0 where c: "copy_elm_package_file_to_tempdir e k w = (w0, Inr ())"
    using assms by (cases "copy_elm_package_file_to_tempdir e k w") auto
  show "snd (compile e k code w) =
           snd (compile_body e k code (infile_of k) (outfile_of k)
                  (fst (copy_elm_package_file_to_tempdir e k w)))"
    "iopub (fst (compile e k code w)) =
           iopub (fst (compile_body e k code (infile_of k) (outfile_of k)
                  (fst (copy_elm_package_file_to_tempdir e k w))))"
    "invocations (fst (compile e k code w)) =
           invocations (fst (compile_body e k code (infile_of k) (outfile_of k)
                  (fst (copy_elm_package_file_to_tempdir e k w))))"
    "files (fst (compile e k code w)) =
           cleaned e k (files (fst (compile_body e k code (infile_of k) (outfile_of k)
                  (fst (copy_elm_package_file_to_tempdir e k w)))))"
    by (simp_all add: compile_def c tempfile_fields infile_of_def outfile_of_def cleaned_def
        Let_def)
qed

lemma compile_not_entered:
  assumes "snd (copy_elm_package_file_to_tempdir e k w) = Inl x"
  shows "compile e k code w = (fst (copy_elm_package_file_to_tempdir e k w), Inl x)"
  using assms
  by (cases "copy_elm_package_file_to_tempdir e k w") (simp add: compile_def)


text \<open>What the body of the with statement does, case by case.\<close>

lemma compile_body_write_fault:
  assumes "write_fault e = Some x"
  shows "snd (compile_body e k code (infile_of k) (outfile_of k) w) = Inl x"
    and "iopub (fst (compile_body e k code (infile_of k) (outfile_of k) w)) = iopub w"
    and "invocations (fst (compile_body e k code (infile_of k) (outfile_of k) w)) = invocations w"
  using assms
  by (simp_all add: compile_body_def write_text_def split: option.splits)

lemma compile_body_returned:
  assumes "write_fault e = None"
      and "elm_make e (elm_make_command k) (tempdir k) ((files w)(infile_of k \<mapsto> code)) = Returned out fs"
      and "fs (outfile_of k) = Some js"
      and "read_fault e js = None"
  shows "compile_body e k code (infile_of k) (outfile_of k) w =
     (send_success_result k (universal_newlines js)
        (w\<lparr>invocations := invocations w @
             [\<lparr>args = elm_make_command k, cwd = tempdir k,
               seen = (files w)(infile_of k \<mapsto> code)\<rparr>],
           files := fs\<rparr>), Inr ())"
  using assms
  by (simp add: compile_body_def write_text_def subprocess_run_def read_text_def
      elm_make_command_def Let_def)

lemma compile_body_raised:
  assumes "write_fault e = None"
      and "elm_make e (elm_make_command k) (tempdir k) ((files w)(infile_of k \<mapsto> code)) = Raised x fs"
  shows "compile_body e k code (infile_of k) (outfile_of k) w =
     compile_handlers x
        (w\<lparr>invocations := invocations w @
             [\<lparr>args = elm_make_command k, cwd = tempdir k,
               seen = (files w)(infile_of k \<mapsto> code)\<rparr>],
           files := fs\<rparr>)"
  using assms
  by (simp add: compile_body_def write_text_def subprocess_run_def read_text_def
      elm_make_command_def Let_def)

lemma compile_body_no_output:
  assumes "write_fault e = None"
      and "elm_make e (elm_make_command k) (tempdir k) ((files w)(infile_of k \<mapsto> code)) = Returned out fs"
      and "fs (outfile_of k) = None"
  shows "compile_body e k code (infile_of k) (outfile_of k) w =
     compile_handlers (file_not_found e (outfile_of k))
        (w\<lparr>invocations := invocations w @
             [\<lparr>args = elm_make_command k, cwd = tempdir k,
               seen = (files w)(infile_of k \<mapsto> code)\<rparr>],
           files := fs\<rparr>)"
  using assms
  by (simp add: compile_body_def write_text_def subprocess_run_def read_text_def
      elm_make_command_def Let_def)

lemma compile_body_unreadable:
  assumes "write_fault e = None"
      and "elm_make e (elm_make_command k) (tempdir k) ((files w)(infile_of k \<mapsto> code)) = Returned out fs"
      and "fs (outfile_of k) = Some js"
      and "read_fault e js = Some x"
  shows "compile_body e k code (infile_of k) (outfile_of k) w =
     compile_handlers x
        (w\<lparr>invocations := invocations w @
             [\<lparr>args = elm_make_command k, cwd = tempdir k,
               seen = (files w)(infile_of k \<mapsto> code)\<rparr>],
           files := fs\<rparr>)"
  using assms
  by (simp add: compile_body_def write_text_def subprocess_run_def read_text_def
      elm_make_command_def Let_def)


lemma compile_handlers_exception:
  "\<not> is_CalledProcessError (cls x) \<Longrightarrow> is_Exception (cls x) \<Longrightarrow>
   compile_handlers x w = (send_error_result (repr x) w, Inl x)"
  by (cases "cls x") (simp_all add: compile_handlers_def)

lemma compile_handlers_fields [simp]:
  "files (fst (compile_handlers x w)) = files w"
  "invocations (fst (compile_handlers x w)) = invocations w"
  by (cases "cls x"; simp add: compile_handlers_def)+

text \<open>The calls of the compiler made by the body.\<close>

lemma compile_body_invocations:
  "invocations (fst (compile_body e k code (infile_of k) (outfile_of k) w)) =
     invocations w @
     (if write_fault e = None
      then [\<lparr>args = elm_make_command k, cwd = tempdir k, seen = (files w)(infile_of k \<mapsto> code)\<rparr>]
      else [])"
  by (simp add: compile_body_def write_text_def subprocess_run_def read_text_def
      elm_make_command_def Let_def split: option.splits run_outcome.splits)

lemma compile_invocations:
  "invocations (fst (compile e k code w)) =
     invocations w @
     (if snd (copy_elm_package_file_to_tempdir e k w) = Inr () \<and> write_fault e = None
      then [\<lparr>args = elm_make_command k, cwd = tempdir k,
             seen = (files (fst (copy_elm_package_file_to_tempdir e k w)))(infile_of k \<mapsto> code)\<rparr>]
      else [])"
proof (cases "snd (copy_elm_package_file_to_tempdir e k w)")
  case (Inl x)
  then show ?thesis
    by (simp add: compile_not_entered)
next
  case (Inr u)
  then have entered: "snd (copy_elm_package_file_to_tempdir e k w) = Inr ()"
    by simp
  show ?thesis
    by (simp add: compile_entered(3) [OF entered] compile_body_invocations entered)
qed

text \<open>The scratch files when the with statement was entered.\<close>

lemma compile_entered_files:
  assumes "snd (copy_elm_package_file_to_tempdir e k w) = Inr ()"
  shows "remove_refused e (infile_of k) = None \<Longrightarrow>
           files (fst (compile e k code w)) (infile_of k) = None"
    and "remove_refused e (outfile_of k) = None \<Longrightarrow>
           files (fst (compile e k code w)) (outfile_of k) = None"
  using scratch_paths_distinct [of k]
  by (simp_all add: compile_entered(4) [OF assms] cleaned_def Let_def)

lemma do_execute_fires:
  assumes "cell_fires code"
  shows "do_execute e k w code =
     (case compile e (k\<lparr>code_buf := []\<rparr>) (join [LF] (code_buf k @ [code])) w of
        (w1, Inr u) \<Rightarrow> (k\<lparr>code_buf := []\<rparr>, w1, Inr (ok_reply (k\<lparr>code_buf := []\<rparr>)))
      | (w1, Inl x) \<Rightarrow>
          if is_Exception (cls x)
          then (k\<lparr>code_buf := []\<rparr>, send_error_result (str x) w1,
                Inr (error_reply (k\<lparr>code_buf := []\<rparr>)))
          else (k\<lparr>code_buf := []\<rparr>, w1, Inl x))"
  using assms
  by (simp add: do_execute_def should_compile_cell_fires Let_def)

lemma do_execute_quiet:
  assumes "\<not> cell_fires code"
  shows "do_execute e k w code =
     (k\<lparr>code_buf := code_buf k @ [code]\<rparr>, w, Inr (ok_reply (k\<lparr>code_buf := code_buf k @ [code]\<rparr>)))"
  using assms
  by (simp add: do_execute_def should_compile_cell_fires Let_def)

section \<open>The trigger: claims C1 and C10\<close>

text \<open>
  C1, as amended. For every submitted cell, the trigger returns true if and only if the
  last line of the most recently submitted cell (the text after the last line break, or
  the whole cell if there is none) is exactly the marker \<^verbatim>\<open>-- compile-code\<close>, with no
  tolerance for whitespace or case. The deque of length one keeps the last line read, not
  the first.
\<close>

theorem trigger_reads_last_line:
  "should_compile (k\<lparr>code_buf := code_buf k @ [code]\<rparr>) = Inr (last_line code = marker)"
  by (simp add: should_compile_cell_fires cell_fires_iff)

text \<open>
  C1 as stated fails on both of its examples: the cell whose first line is the marker and
  whose second line is a module header does not fire, and the cell that has the marker on
  its second and last line fires.
\<close>

theorem trigger_first_line_counterexample:
  "first_line (''-- compile-code'' @ [LF] @ ''module Main exposing (..)'') = ''-- compile-code'' \<and>
   should_compile (init_kernel ''/tmp/elm''
     \<lparr>code_buf := [''-- compile-code'' @ [LF] @ ''module Main exposing (..)'']\<rparr>) = Inr False \<and>
   first_line (''module Main'' @ [LF] @ ''-- compile-code'') \<noteq> ''-- compile-code'' \<and>
   should_compile (init_kernel ''/tmp/elm''
     \<lparr>code_buf := [''module Main'' @ [LF] @ ''-- compile-code'']\<rparr>) = Inr True"
  by code_simp

text \<open>
  C10. For every submitted cell whose text ends with a line break, the trigger returns
  false: the line that is compared keeps the last character of the cell, and the marker
  does not end with a line break. The carriage return, which \<^verbatim>\<open>StringIO\<close> does not
  take for a line end, is covered as well.
\<close>

theorem trailing_line_break_never_fires:
  assumes "code \<noteq> []" and "last code = LF \<or> last code = CR"
  shows "should_compile (k\<lparr>code_buf := code_buf k @ [code]\<rparr>) = Inr False \<and>
         readlines code \<noteq> [] \<and> last (last (readlines code)) = last code"
proof -
  from assms(1) have lines: "readlines code \<noteq> [] \<and> last (last (readlines code)) = last code"
    by (rule readlines_last_char)
  with assms(2) marker_last have "last (readlines code) \<noteq> marker"
    by auto
  then show ?thesis
    using lines by (simp add: should_compile_last)
qed

theorem trailing_line_break_never_fires_witness:
  "''-- compile-code'' @ [LF] \<noteq> [] \<and>
   (last (''-- compile-code'' @ [LF]) = LF \<or> last (''-- compile-code'' @ [LF]) = CR) \<and>
   should_compile (init_kernel ''/tmp/elm''\<lparr>code_buf := [''-- compile-code'' @ [LF]]\<rparr>) = Inr False"
  using trailing_line_break_never_fires [of "''-- compile-code'' @ [LF]" "init_kernel ''/tmp/elm''"]
  by (simp add: init_kernel_def)

section \<open>Outcomes of a triggered compile\<close>

lemma cell_fires_marker: "cell_fires ''-- compile-code''"
  by (simp add: cell_fires_iff last_line_def marker_def LF_def)


lemma copy_stage_refused:
  assumes "files w ''elm-package.json'' \<noteq> None" and "copy_fault e = Some y"
      and "cls y = PermissionError"
  shows "snd (copy_elm_package_file_to_tempdir e k w) = Inr ()"
    and "iopub (fst (copy_elm_package_file_to_tempdir e k w)) =
           iopub w @
           [display ''text/html''
              (''<pre>Permission error: could not copy elm-package.json to '' @ tempdir k @
               ''</pre>'')]"
    and "files (fst (copy_elm_package_file_to_tempdir e k w)) =
           (case copy_residue e of
              None \<Rightarrow> files w
            | Some left \<Rightarrow> (files w)(manifest_copy_of k \<mapsto> left))"
  using assms
  by (auto simp: copy_elm_package_file_to_tempdir_def shutil_copy_def manifest_copy_of_def
      split: option.splits)

lemma cleared_paths [simp]:
  "infile_of (k\<lparr>code_buf := b\<rparr>) = infile_of k"
  "outfile_of (k\<lparr>code_buf := b\<rparr>) = outfile_of k"
  "elm_make_command (k\<lparr>code_buf := b\<rparr>) = elm_make_command k"
  by (simp_all add: infile_of_def outfile_of_def elm_make_command_def)

text \<open>The compiler could not be run.\<close>

lemma compile_raised_exception:
  assumes entered: "snd (copy_elm_package_file_to_tempdir e k w) = Inr ()"
      and wrote: "write_fault e = None"
      and raised: "elm_make e (elm_make_command k) (tempdir k)
                     ((files (fst (copy_elm_package_file_to_tempdir e k w)))(infile_of k \<mapsto> code))
                   = Raised x fs"
      and other: "\<not> is_CalledProcessError (cls x)" and exc: "is_Exception (cls x)"
  shows "snd (compile e k code w) = Inl x"
    and "iopub (fst (compile e k code w)) =
           iopub (fst (copy_elm_package_file_to_tempdir e k w)) @
           [display ''text/html'' (''<pre>'' @ repr x @ ''</pre>'')]"
  by (simp_all add: compile_entered [OF entered] compile_body_raised [OF wrote raised]
      compile_handlers_exception [OF other exc])

text \<open>The compiler exited with status zero and left no output file.\<close>

lemma compile_no_output:
  assumes entered: "snd (copy_elm_package_file_to_tempdir e k w) = Inr ()"
      and wrote: "write_fault e = None"
      and returned: "elm_make e (elm_make_command k) (tempdir k)
                     ((files (fst (copy_elm_package_file_to_tempdir e k w)))(infile_of k \<mapsto> code))
                   = Returned out fs"
      and missing: "fs (outfile_of k) = None"
  shows "snd (compile e k code w) = Inl (file_not_found e (outfile_of k))"
    and "iopub (fst (compile e k code w)) =
           iopub (fst (copy_elm_package_file_to_tempdir e k w)) @
           [display ''text/html'' (''<pre>'' @ repr (file_not_found e (outfile_of k)) @ ''</pre>'')]"
proof -
  have "\<not> is_CalledProcessError (cls (file_not_found e (outfile_of k)))"
    and "is_Exception (cls (file_not_found e (outfile_of k)))"
    by (simp_all add: file_not_found_def)
  then show "snd (compile e k code w) = Inl (file_not_found e (outfile_of k))"
    and "iopub (fst (compile e k code w)) =
           iopub (fst (copy_elm_package_file_to_tempdir e k w)) @
           [display ''text/html'' (''<pre>'' @ repr (file_not_found e (outfile_of k)) @ ''</pre>'')]"
    by (simp_all add: compile_entered [OF entered] compile_body_no_output [OF wrote returned missing]
        compile_handlers_exception)
qed

text \<open>The output file could not be read.\<close>

lemma compile_unreadable:
  assumes entered: "snd (copy_elm_package_file_to_tempdir e k w) = Inr ()"
      and wrote: "write_fault e = None"
      and returned: "elm_make e (elm_make_command k) (tempdir k)
                     ((files (fst (copy_elm_package_file_to_tempdir e k w)))(infile_of k \<mapsto> code))
                   = Returned out fs"
      and written: "fs (outfile_of k) = Some js"
      and unreadable: "read_fault e js = Some x"
      and other: "\<not> is_CalledProcessError (cls x)" and exc: "is_Exception (cls x)"
  shows "snd (compile e k code w) = Inl x"
    and "iopub (fst (compile e k code w)) =
           iopub (fst (copy_elm_package_file_to_tempdir e k w)) @
           [display ''text/html'' (''<pre>'' @ repr x @ ''</pre>'')]"
  by (simp_all add: compile_entered [OF entered]
      compile_body_unreadable [OF wrote returned written unreadable]
      compile_handlers_exception [OF other exc])

text \<open>The input file could not be written.\<close>

lemma compile_write_fault:
  assumes entered: "snd (copy_elm_package_file_to_tempdir e k w) = Inr ()"
      and fault: "write_fault e = Some x"
  shows "snd (compile e k code w) = Inl x"
    and "iopub (fst (compile e k code w)) = iopub (fst (copy_elm_package_file_to_tempdir e k w))"
  by (simp_all add: compile_entered [OF entered] compile_body_write_fault [OF fault])

text \<open>The manifest could not be copied, for another reason than a missing permission.\<close>

lemma compile_copy_fault:
  assumes manifest: "files w ''elm-package.json'' \<noteq> None"
      and fault: "copy_fault e = Some x" and other: "cls x \<noteq> PermissionError"
  shows "snd (compile e k code w) = Inl x"
    and "iopub (fst (compile e k code w)) = iopub w"
proof -
  have raised: "snd (copy_elm_package_file_to_tempdir e k w) = Inl x"
    using assms
    by (auto simp: copy_elm_package_file_to_tempdir_def shutil_copy_def split: option.splits)
  show "snd (compile e k code w) = Inl x"
    by (simp add: compile_not_entered [OF raised])
  show "iopub (fst (compile e k code w)) = iopub w"
    by (simp add: compile_not_entered [OF raised] copy_stage_raises [OF raised])
qed



lemma do_execute_compile_raises:
  assumes "cell_fires code"
      and "snd (compile e (k\<lparr>code_buf := []\<rparr>) (join [LF] (code_buf k @ [code])) w) = Inl x"
      and "is_Exception (cls x)"
  shows "do_execute e k w code =
     (k\<lparr>code_buf := []\<rparr>,
      send_error_result (str x)
        (fst (compile e (k\<lparr>code_buf := []\<rparr>) (join [LF] (code_buf k @ [code])) w)),
      Inr (error_reply (k\<lparr>code_buf := []\<rparr>)))"
proof -
  obtain w1 r where c: "compile e (k\<lparr>code_buf := []\<rparr>) (join [LF] (code_buf k @ [code])) w = (w1, r)"
    by (cases "compile e (k\<lparr>code_buf := []\<rparr>) (join [LF] (code_buf k @ [code])) w")
  with assms(2) have "r = Inl x" by simp
  with assms(3) show ?thesis
    by (simp add: do_execute_fires [OF assms(1)] c)
qed


section \<open>Infrastructure failure: claim C3\<close>

lemma compile_handlers_raises:
  assumes "snd (compile_handlers y w) = Inl x" and "is_Exception (cls x)"
  shows "x = y"
    and "iopub (fst (compile_handlers y w)) =
           iopub w @ [display ''text/html'' (''<pre>'' @ repr x @ ''</pre>'')]"
  using assms
  by (cases "cls y"; simp add: compile_handlers_def)+

text \<open>An exception that leaves the body after the input file was written comes out of the
  \<^verbatim>\<open>try\<close> statement, whose second handler has displayed it.\<close>

lemma compile_body_raises_inside:
  assumes wrote: "write_fault e = None"
      and raised: "snd (compile_body e k code (infile_of k) (outfile_of k) w) = Inl x"
      and exc: "is_Exception (cls x)"
  shows "iopub (fst (compile_body e k code (infile_of k) (outfile_of k) w)) =
           iopub w @ [display ''text/html'' (''<pre>'' @ repr x @ ''</pre>'')]"
proof -
  let ?w2 = "\<lambda>fs. w\<lparr>invocations := invocations w @
             [\<lparr>args = elm_make_command k, cwd = tempdir k,
               seen = (files w)(infile_of k \<mapsto> code)\<rparr>],
           files := fs\<rparr>"
  have "\<exists>y fs. compile_body e k code (infile_of k) (outfile_of k) w = compile_handlers y (?w2 fs)"
  proof (cases "elm_make e (elm_make_command k) (tempdir k) ((files w)(infile_of k \<mapsto> code))")
    case (Raised y fs)
    from compile_body_raised [OF wrote Raised] show ?thesis by blast
  next
    case (Returned out fs)
    show ?thesis
    proof (cases "fs (outfile_of k)")
      case None
      from compile_body_no_output [OF wrote Returned None] show ?thesis by blast
    next
      case (Some js)
      show ?thesis
      proof (cases "read_fault e js")
        case None
        from compile_body_returned [OF wrote Returned Some None] raised
        show ?thesis by simp
      next
        case (Some y)
        from compile_body_unreadable [OF wrote Returned \<open>fs (outfile_of k) = Some js\<close> Some]
        show ?thesis by blast
      qed
    qed
  qed
  then obtain y fs where
    b: "compile_body e k code (infile_of k) (outfile_of k) w = compile_handlers y (?w2 fs)"
    by blast
  from raised have "snd (compile_handlers y (?w2 fs)) = Inl x"
    by (simp add: b)
  from compile_handlers_raises(2) [OF this exc] show ?thesis
    by (simp add: b)
qed

text \<open>What the execute call does with an exception that \<^verbatim>\<open>_compile\<close> raises.\<close>

lemma do_execute_reports:
  fixes k :: kernel and e :: env and w :: world and code :: string
  defines "k' \<equiv> k\<lparr>code_buf := []\<rparr>"
  defines "unit \<equiv> join [LF] (code_buf k @ [code])"
  defines "w0 \<equiv> fst (copy_elm_package_file_to_tempdir e k' w)"
  assumes fires: "cell_fires code"
      and raised: "snd (compile e k' unit w) = Inl x"
      and exc: "is_Exception (cls x)"
  shows "snd (snd (do_execute e k w code)) = Inr (error_reply k') \<and>
         status (error_reply k') = ''error'' \<and>
         iopub (fst (snd (do_execute e k w code))) =
           (if snd (copy_elm_package_file_to_tempdir e k' w) = Inr () \<and> write_fault e = None
            then iopub w0 @ [display ''text/html'' (''<pre>'' @ repr x @ ''</pre>''),
                             display ''text/html'' (''<pre>'' @ str x @ ''</pre>'')]
            else if snd (copy_elm_package_file_to_tempdir e k' w) = Inr ()
            then iopub w0 @ [display ''text/html'' (''<pre>'' @ str x @ ''</pre>'')]
            else iopub w @ [display ''text/html'' (''<pre>'' @ str x @ ''</pre>'')])"
proof -
  have run: "do_execute e k w code =
     (k', send_error_result (str x) (fst (compile e k' unit w)), Inr (error_reply k'))"
    unfolding k'_def unit_def
    by (rule do_execute_compile_raises [OF fires raised [unfolded k'_def unit_def] exc])
  have "iopub (fst (compile e k' unit w)) =
      (if snd (copy_elm_package_file_to_tempdir e k' w) = Inr () \<and> write_fault e = None
       then iopub w0 @ [display ''text/html'' (''<pre>'' @ repr x @ ''</pre>'')]
       else if snd (copy_elm_package_file_to_tempdir e k' w) = Inr ()
       then iopub w0
       else iopub w)"
  proof (cases "snd (copy_elm_package_file_to_tempdir e k' w)")
    case (Inl y)
    then show ?thesis
      by (simp add: compile_not_entered copy_stage_raises)
  next
    case (Inr u)
    then have entered: "snd (copy_elm_package_file_to_tempdir e k' w) = Inr ()"
      by simp
    show ?thesis
    proof (cases "write_fault e")
      case (Some y)
      then show ?thesis
        by (simp add: entered compile_entered(2) [OF entered] compile_body_write_fault w0_def)
    next
      case None
      from raised have "snd (compile_body e k' unit (infile_of k') (outfile_of k') w0) = Inl x"
        by (simp add: compile_entered(1) [OF entered] w0_def)
      from compile_body_raises_inside [OF None this exc] show ?thesis
        by (simp add: entered None compile_entered(2) [OF entered] w0_def)
    qed
  qed
  then show ?thesis
    by (simp add: run error_reply_def)
qed


text \<open>
  C3, as amended. When the trigger fires and an \<^verbatim>\<open>Exception\<close> that is not a compile
  failure is raised during the pipeline, so that \<^verbatim>\<open>_compile\<close> raises it (the compiler
  executable is missing, the output file is missing or cannot be read, the input file
  cannot be written, the manifest cannot be copied for another reason than permissions),
  the execute call returns a reply of status \<^verbatim>\<open>error\<close> and the exception does not reach the
  host runtime: \<^verbatim>\<open>do_execute\<close> catches it and emits one display message with its \<^verbatim>\<open>str\<close>.
  That message is the only one of the failure when the exception arises before the
  \<^verbatim>\<open>try\<close> statement (copying the manifest, writing the input file). When it arises inside
  the \<^verbatim>\<open>try\<close> statement (running the compiler, reading the output file), \<^verbatim>\<open>_compile\<close> has
  emitted a display message with its \<^verbatim>\<open>repr\<close> before raising it again, and the call emits
  two. The messages are counted from the end of the manifest step.
\<close>

theorem infrastructure_failure_reported:
  fixes k :: kernel and e :: env and w :: world and code :: string
  defines "k' \<equiv> k\<lparr>code_buf := []\<rparr>"
  defines "unit \<equiv> join [LF] (code_buf k @ [code])"
  defines "w0 \<equiv> fst (copy_elm_package_file_to_tempdir e k' w)"
  defines "entered \<equiv> snd (copy_elm_package_file_to_tempdir e k' w) = Inr ()"
  defines "outcome \<equiv> elm_make e (elm_make_command k') (tempdir k')
                        ((files w0)(infile_of k' \<mapsto> unit))"
  assumes fires: "cell_fires code"
  shows "(snd (compile e k' unit w) = Inl x \<and> is_Exception (cls x) \<longrightarrow>
            snd (snd (do_execute e k w code)) = Inr (error_reply k') \<and>
            iopub (fst (snd (do_execute e k w code))) =
              (if entered \<and> write_fault e = None
               then iopub w0 @ [display ''text/html'' (''<pre>'' @ repr x @ ''</pre>''),
                                display ''text/html'' (''<pre>'' @ str x @ ''</pre>'')]
               else if entered
               then iopub w0 @ [display ''text/html'' (''<pre>'' @ str x @ ''</pre>'')]
               else iopub w @ [display ''text/html'' (''<pre>'' @ str x @ ''</pre>'')])) \<and>
         status (error_reply k') = ''error'' \<and>
         (entered \<and> write_fault e = None \<and> outcome = Raised y fs \<and>
          \<not> is_CalledProcessError (cls y) \<longrightarrow>
            snd (compile e k' unit w) = Inl y) \<and>
         (entered \<and> write_fault e = None \<and> outcome = Returned out fs \<and>
          fs (outfile_of k') = None \<longrightarrow>
            snd (compile e k' unit w) = Inl (file_not_found e (outfile_of k'))) \<and>
         (entered \<and> write_fault e = None \<and> outcome = Returned out fs \<and>
          fs (outfile_of k') = Some js \<and> read_fault e js = Some y \<and>
          \<not> is_CalledProcessError (cls y) \<longrightarrow>
            snd (compile e k' unit w) = Inl y) \<and>
         (entered \<and> write_fault e = Some y \<longrightarrow> snd (compile e k' unit w) = Inl y) \<and>
         (files w ''elm-package.json'' \<noteq> None \<and> copy_fault e = Some y \<and>
          cls y \<noteq> PermissionError \<longrightarrow>
            snd (compile e k' unit w) = Inl y)"
proof (intro conjI impI)
  assume "snd (compile e k' unit w) = Inl x \<and> is_Exception (cls x)"
  then have raised: "snd (compile e k' unit w) = Inl x" and exc: "is_Exception (cls x)"
    by simp_all
  note r = do_execute_reports [OF fires raised [unfolded k'_def unit_def] exc]
  from r show "snd (snd (do_execute e k w code)) = Inr (error_reply k')"
    by (simp add: k'_def)
  from r show "iopub (fst (snd (do_execute e k w code))) =
      (if entered \<and> write_fault e = None
       then iopub w0 @ [display ''text/html'' (''<pre>'' @ repr x @ ''</pre>''),
                        display ''text/html'' (''<pre>'' @ str x @ ''</pre>'')]
       else if entered
       then iopub w0 @ [display ''text/html'' (''<pre>'' @ str x @ ''</pre>'')]
       else iopub w @ [display ''text/html'' (''<pre>'' @ str x @ ''</pre>'')])"
    by (simp add: k'_def w0_def entered_def)
next
  show "status (error_reply k') = ''error''"
    by (simp add: error_reply_def)
next
  assume a: "entered \<and> write_fault e = None \<and> outcome = Raised y fs \<and>
      \<not> is_CalledProcessError (cls y)"
  then have "compile_body e k' unit (infile_of k') (outfile_of k') w0 =
      compile_handlers y
        (w0\<lparr>invocations := invocations w0 @
             [\<lparr>args = elm_make_command k', cwd = tempdir k',
               seen = (files w0)(infile_of k' \<mapsto> unit)\<rparr>],
           files := fs\<rparr>)"
    by (simp add: compile_body_raised outcome_def)
  moreover from a have "snd (compile_handlers y w1) = Inl y" for w1
    by (cases "cls y") (simp_all add: compile_handlers_def)
  ultimately show "snd (compile e k' unit w) = Inl y"
    using a compile_entered(1) [of e k' w unit] by (simp add: entered_def w0_def)
next
  assume a: "entered \<and> write_fault e = None \<and> outcome = Returned out fs \<and>
      fs (outfile_of k') = None"
  then show "snd (compile e k' unit w) = Inl (file_not_found e (outfile_of k'))"
    using compile_no_output(1) [of e k' w unit out fs]
    by (simp add: entered_def outcome_def w0_def)
next
  assume a: "entered \<and> write_fault e = None \<and> outcome = Returned out fs \<and>
      fs (outfile_of k') = Some js \<and> read_fault e js = Some y \<and>
      \<not> is_CalledProcessError (cls y)"
  then have "compile_body e k' unit (infile_of k') (outfile_of k') w0 =
      compile_handlers y
        (w0\<lparr>invocations := invocations w0 @
             [\<lparr>args = elm_make_command k', cwd = tempdir k',
               seen = (files w0)(infile_of k' \<mapsto> unit)\<rparr>],
           files := fs\<rparr>)"
    by (simp add: compile_body_unreadable outcome_def)
  moreover from a have "snd (compile_handlers y w1) = Inl y" for w1
    by (cases "cls y") (simp_all add: compile_handlers_def)
  ultimately show "snd (compile e k' unit w) = Inl y"
    using a compile_entered(1) [of e k' w unit] by (simp add: entered_def w0_def)
next
  assume "entered \<and> write_fault e = Some y"
  then show "snd (compile e k' unit w) = Inl y"
    using compile_write_fault(1) [of e k' w y unit] by (simp add: entered_def)
next
  assume "files w ''elm-package.json'' \<noteq> None \<and> copy_fault e = Some y \<and>
      cls y \<noteq> PermissionError"
  then show "snd (compile e k' unit w) = Inl y"
    using compile_copy_fault(1) [of w e y k' unit] by simp
qed


theorem infrastructure_failure_reported_witness:
  "cell_fires ''-- compile-code'' \<and>
   snd (snd (do_execute (stub_env missing_stub)
        (demo_kernel\<lparr>code_buf := [''module Main'']\<rparr>) empty_world ''-- compile-code'')) =
     Inr (error_reply demo_kernel) \<and>
   iopub (fst (snd (do_execute (stub_env missing_stub)
        (demo_kernel\<lparr>code_buf := [''module Main'']\<rparr>) empty_world ''-- compile-code''))) =
     [display ''text/html''
        (''<pre>FileNotFoundError(2, '' @ [CHR 0x27] @ ''No such file or directory'' @
         [CHR 0x27] @ '')</pre>''),
      display ''text/html''
        (''<pre>[Errno 2] No such file or directory: '' @ [CHR 0x27] @ ''elm-make'' @
         [CHR 0x27] @ ''</pre>'')] \<and>
   iopub (fst (snd (do_execute (stub_env silent_stub)
        (demo_kernel\<lparr>code_buf := [''module Main'']\<rparr>) empty_world ''-- compile-code''))) =
     [display ''text/html''
        (''<pre>FileNotFoundError(2, '' @ [CHR 0x27] @ ''No such file or directory'' @
         [CHR 0x27] @ '')</pre>''),
      display ''text/html''
        (''<pre>[Errno 2] No such file or directory: '' @ [CHR 0x27] @ ''/tmp/elm/index.js'' @
         [CHR 0x27] @ ''</pre>'')] \<and>
   iopub (fst (snd (do_execute ((stub_env good_stub)\<lparr>write_fault := Some disk_full\<rparr>)
        (demo_kernel\<lparr>code_buf := [''module Main'']\<rparr>) empty_world ''-- compile-code''))) =
     [display ''text/html'' ''<pre>[Errno 28] No space left on device</pre>''] \<and>
   iopub (fst (snd (do_execute ((stub_env good_stub)\<lparr>copy_fault := Some disk_full\<rparr>)
        (demo_kernel\<lparr>code_buf := [''module Main'']\<rparr>) manifest_world ''-- compile-code''))) =
     [display ''text/html'' ''<pre>[Errno 28] No space left on device</pre>'']"
proof -
  let ?k = "demo_kernel\<lparr>code_buf := [''module Main'']\<rparr>"
  let ?unit = "join [LF] (code_buf ?k @ [''-- compile-code''])"
  let ?missing = "Exn FileNotFoundError
      (''[Errno 2] No such file or directory: '' @ [CHR 0x27] @ ''elm-make'' @ [CHR 0x27])
      (''FileNotFoundError(2, '' @ [CHR 0x27] @ ''No such file or directory'' @ [CHR 0x27] @ '')'')"
  let ?absent = "Exn FileNotFoundError
      (''[Errno 2] No such file or directory: '' @ [CHR 0x27] @ ''/tmp/elm/index.js'' @ [CHR 0x27])
      (''FileNotFoundError(2, '' @ [CHR 0x27] @ ''No such file or directory'' @ [CHR 0x27] @ '')'')"
  have cleared: "?k\<lparr>code_buf := []\<rparr> = demo_kernel"
    by (simp add: demo_kernel_def init_kernel_def)
  have entered: "copy_elm_package_file_to_tempdir e demo_kernel empty_world = (empty_world, Inr ())"
    for e
    by (simp add: copy_elm_package_file_to_tempdir_def empty_world_def)
  have quiet: "iopub empty_world = []" "iopub manifest_world = []"
    by (simp_all add: manifest_world_def empty_world_def)
  have r1: "snd (compile (stub_env missing_stub) (?k\<lparr>code_buf := []\<rparr>) ?unit empty_world) =
      Inl ?missing"
    by code_simp
  have r2: "snd (compile (stub_env silent_stub) (?k\<lparr>code_buf := []\<rparr>) ?unit empty_world) =
      Inl ?absent"
    by code_simp
  have r3: "snd (compile ((stub_env good_stub)\<lparr>write_fault := Some disk_full\<rparr>)
      (?k\<lparr>code_buf := []\<rparr>) ?unit empty_world) = Inl disk_full"
    by code_simp
  have r4: "snd (compile ((stub_env good_stub)\<lparr>copy_fault := Some disk_full\<rparr>)
      (?k\<lparr>code_buf := []\<rparr>) ?unit manifest_world) = Inl disk_full"
    by code_simp
  have raised: "snd (copy_elm_package_file_to_tempdir
      ((stub_env good_stub)\<lparr>copy_fault := Some disk_full\<rparr>) demo_kernel manifest_world) \<noteq> Inr ()"
    by (simp add: copy_elm_package_file_to_tempdir_def shutil_copy_def manifest_world_def
        stub_env_def disk_full_def)
  have exc: "is_Exception (cls ?missing)" "is_Exception (cls ?absent)" "is_Exception (cls disk_full)"
    by (simp_all add: disk_full_def)
  note t1 = infrastructure_failure_reported [OF cell_fires_marker, THEN conjunct1, THEN mp,
      OF conjI [OF r1 exc(1)]]
  note t2 = infrastructure_failure_reported [OF cell_fires_marker, THEN conjunct1, THEN mp,
      OF conjI [OF r2 exc(2)]]
  note t3 = infrastructure_failure_reported [OF cell_fires_marker, THEN conjunct1, THEN mp,
      OF conjI [OF r3 exc(3)]]
  note t4 = infrastructure_failure_reported [OF cell_fires_marker, THEN conjunct1, THEN mp,
      OF conjI [OF r4 exc(3)]]
  from t1 have "snd (snd (do_execute (stub_env missing_stub) ?k empty_world ''-- compile-code'')) =
      Inr (error_reply demo_kernel)"
    by (simp add: cleared)
  moreover from t1 have "iopub (fst (snd (do_execute (stub_env missing_stub) ?k empty_world
      ''-- compile-code''))) =
     [display ''text/html''
        (''<pre>FileNotFoundError(2, '' @ [CHR 0x27] @ ''No such file or directory'' @
         [CHR 0x27] @ '')</pre>''),
      display ''text/html''
        (''<pre>[Errno 2] No such file or directory: '' @ [CHR 0x27] @ ''elm-make'' @
         [CHR 0x27] @ ''</pre>'')]"
    by (simp add: cleared entered quiet stub_env_def)
  moreover from t2 have "iopub (fst (snd (do_execute (stub_env silent_stub) ?k empty_world
      ''-- compile-code''))) =
     [display ''text/html''
        (''<pre>FileNotFoundError(2, '' @ [CHR 0x27] @ ''No such file or directory'' @
         [CHR 0x27] @ '')</pre>''),
      display ''text/html''
        (''<pre>[Errno 2] No such file or directory: '' @ [CHR 0x27] @ ''/tmp/elm/index.js'' @
         [CHR 0x27] @ ''</pre>'')]"
    by (simp add: cleared entered quiet stub_env_def)
  moreover from t3 have "iopub (fst (snd (do_execute
      ((stub_env good_stub)\<lparr>write_fault := Some disk_full\<rparr>) ?k empty_world
      ''-- compile-code''))) =
     [display ''text/html'' ''<pre>[Errno 28] No space left on device</pre>'']"
    by (simp add: cleared entered quiet disk_full_def)
  moreover from t4 raised have "iopub (fst (snd (do_execute
      ((stub_env good_stub)\<lparr>copy_fault := Some disk_full\<rparr>) ?k manifest_world
      ''-- compile-code''))) =
     [display ''text/html'' ''<pre>[Errno 28] No space left on device</pre>'']"
    by (simp add: cleared quiet disk_full_def)
  ultimately show ?thesis
    using cell_fires_marker by blast
qed

text \<open>
  C3 as stated fails with the compiler executable missing: the execute call emits two
  display messages, not one, and it returns a reply instead of raising.
\<close>

theorem exactly_one_display_counterexample:
  "length (iopub (fst (snd (do_execute (stub_env missing_stub)
        (demo_kernel\<lparr>code_buf := [''module Main'']\<rparr>) empty_world ''-- compile-code'')))) = 2 \<and>
   snd (snd (do_execute (stub_env missing_stub)
        (demo_kernel\<lparr>code_buf := [''module Main'']\<rparr>) empty_world ''-- compile-code'')) =
     Inr (error_reply demo_kernel)"
  by code_simp

section \<open>The buffer across a triggered compile: claim C2\<close>

text \<open>
  C2. For every execution in which the trigger fires, the pending buffer is empty after
  the call, whatever the compile did (the environment is arbitrary: success, compile
  failure and infrastructure failure alike), and the buffer is cleared before the compiler
  is invoked: what the call does to the world and what it answers is what \<^verbatim>\<open>_compile\<close>
  does when run by the kernel object whose buffer is already empty.
\<close>

theorem buffer_cleared_before_compile:
  assumes "cell_fires code"
  shows "code_buf (fst (do_execute e k w code)) = [] \<and>
         snd (do_execute e k w code) =
           (case compile e (k\<lparr>code_buf := []\<rparr>) (join [LF] (code_buf k @ [code])) w of
              (w1, Inr u) \<Rightarrow> (w1, Inr (ok_reply (k\<lparr>code_buf := []\<rparr>)))
            | (w1, Inl x) \<Rightarrow>
                if is_Exception (cls x)
                then (send_error_result (str x) w1, Inr (error_reply (k\<lparr>code_buf := []\<rparr>)))
                else (w1, Inl x))"
  by (simp add: do_execute_fires [OF assms] split: prod.splits sum.splits)

theorem buffer_cleared_before_compile_witness:
  "cell_fires ''-- compile-code'' \<and>
   code_buf (fst (do_execute (stub_env good_stub)
      (demo_kernel\<lparr>code_buf := [''module Main'']\<rparr>) empty_world ''-- compile-code'')) = [] \<and>
   code_buf (fst (do_execute (stub_env failing_stub)
      (demo_kernel\<lparr>code_buf := [''module Main'']\<rparr>) empty_world ''-- compile-code'')) = [] \<and>
   code_buf (fst (do_execute (stub_env missing_stub)
      (demo_kernel\<lparr>code_buf := [''module Main'']\<rparr>) empty_world ''-- compile-code'')) = []"
  using cell_fires_marker
    buffer_cleared_before_compile [of "''-- compile-code''" "stub_env good_stub"
      "demo_kernel\<lparr>code_buf := [''module Main'']\<rparr>" empty_world]
    buffer_cleared_before_compile [of "''-- compile-code''" "stub_env failing_stub"
      "demo_kernel\<lparr>code_buf := [''module Main'']\<rparr>" empty_world]
    buffer_cleared_before_compile [of "''-- compile-code''" "stub_env missing_stub"
      "demo_kernel\<lparr>code_buf := [''module Main'']\<rparr>" empty_world]
  by simp

section \<open>Compile failure: claim C4\<close>




section \<open>Success: claim C5\<close>

text \<open>
  The id of the container determines the execution counter: \<open>str_nat\<close> writes the decimal
  numeral of its argument, which reads back as that number.
\<close>

lemma digit_value_digit: "d < 10 \<Longrightarrow> digit_value (digit d) = d"
  by (simp add: digit_value_def digit_def)

lemma nat_of_digits_str_nat: "nat_of_digits (str_nat n) = n"
proof (induction n rule: str_nat.induct)
  case (1 n)
  show ?case
  proof (cases "n < 10")
    case True
    then show ?thesis
      by (subst str_nat.simps) (simp add: nat_of_digits_def digit_value_digit)
  next
    case False
    with "1.IH" have "nat_of_digits (str_nat (n div 10)) = n div 10"
      by simp
    with False show ?thesis
      by (subst str_nat.simps) (simp add: nat_of_digits_def digit_value_digit)
  qed
qed

lemma container_id_inj:
  assumes "0 \<le> m" and "0 \<le> n" and "str_int m = str_int n"
  shows "m = n"
proof -
  from assms have "str_nat (nat m) = str_nat (nat n)"
    by (simp add: str_int_def)
  then have "nat m = nat n"
    by (metis nat_of_digits_str_nat)
  with assms show ?thesis
    by simp
qed










section \<open>Scratch files: claim C7\<close>

text \<open>
  C7, as amended. On every exit path of the \<^verbatim>\<open>with\<close> statement of \<^verbatim>\<open>_compile\<close>, which is
  entered whenever the manifest step does not raise and is left by success, by a compile
  failure or by an exception of any class, each of the two scratch files is deleted if
  present before the compile call returns, unless \<^verbatim>\<open>os.remove\<close> itself fails on it with an
  \<^verbatim>\<open>OSError\<close>: that error is suppressed, changes nothing in what the call returns or
  raises, and leaves the file on disk. When the manifest step raises, the \<^verbatim>\<open>with\<close>
  statement is not reached: the scratch files are neither written nor deleted, and the
  compiler is not run.
\<close>

theorem scratch_files_removed:
  fixes k :: kernel and e :: env and w :: world
  defines "w0 \<equiv> fst (copy_elm_package_file_to_tempdir e k w)"
  shows "(snd (copy_elm_package_file_to_tempdir e k w) = Inr () \<longrightarrow>
            snd (compile e k code w) =
              snd (compile_body e k code (infile_of k) (outfile_of k) w0) \<and>
            files (fst (compile e k code w)) =
              cleaned e k (files (fst (compile_body e k code (infile_of k) (outfile_of k) w0))) \<and>
            (remove_refused e (infile_of k) = None \<longrightarrow>
               files (fst (compile e k code w)) (infile_of k) = None) \<and>
            (remove_refused e (outfile_of k) = None \<longrightarrow>
               files (fst (compile e k code w)) (outfile_of k) = None)) \<and>
         (snd (copy_elm_package_file_to_tempdir e k w) \<noteq> Inr () \<longrightarrow>
            files (fst (compile e k code w)) (infile_of k) = files w (infile_of k) \<and>
            files (fst (compile e k code w)) (outfile_of k) = files w (outfile_of k) \<and>
            invocations (fst (compile e k code w)) = invocations w)"
proof (intro conjI impI)
  assume entered: "snd (copy_elm_package_file_to_tempdir e k w) = Inr ()"
  show "snd (compile e k code w) = snd (compile_body e k code (infile_of k) (outfile_of k) w0)"
    unfolding w0_def by (rule compile_entered(1) [OF entered])
  show "files (fst (compile e k code w)) =
      cleaned e k (files (fst (compile_body e k code (infile_of k) (outfile_of k) w0)))"
    unfolding w0_def by (rule compile_entered(4) [OF entered])
  show "files (fst (compile e k code w)) (infile_of k) = None"
    if "remove_refused e (infile_of k) = None"
    using that by (rule compile_entered_files(1) [OF entered])
  show "files (fst (compile e k code w)) (outfile_of k) = None"
    if "remove_refused e (outfile_of k) = None"
    using that by (rule compile_entered_files(2) [OF entered])
next
  assume "snd (copy_elm_package_file_to_tempdir e k w) \<noteq> Inr ()"
  then obtain x where raised: "snd (copy_elm_package_file_to_tempdir e k w) = Inl x"
    by (cases "snd (copy_elm_package_file_to_tempdir e k w)") auto
  show "files (fst (compile e k code w)) (infile_of k) = files w (infile_of k)"
    "files (fst (compile e k code w)) (outfile_of k) = files w (outfile_of k)"
    "invocations (fst (compile e k code w)) = invocations w"
    by (simp_all add: compile_not_entered [OF raised])
qed

theorem scratch_files_removed_witness:
  "files (fst (compile (stub_env good_stub) demo_kernel ''module Main'' empty_world))
     ''/tmp/elm/input.elm'' = None \<and>
   files (fst (compile (stub_env good_stub) demo_kernel ''module Main'' empty_world))
     ''/tmp/elm/index.js'' = None \<and>
   files (fst (compile (stub_env failing_stub) demo_kernel ''module Main'' empty_world))
     ''/tmp/elm/input.elm'' = None \<and>
   files (fst (compile (stub_env missing_stub) demo_kernel ''module Main'' empty_world))
     ''/tmp/elm/input.elm'' = None \<and>
   files (fst (compile ((stub_env good_stub)\<lparr>copy_fault := Some disk_full\<rparr>) demo_kernel
     ''module Main'' manifest_world)) ''/tmp/elm/input.elm'' = None"
proof -
  have paths: "infile_of demo_kernel = ''/tmp/elm/input.elm''"
    "outfile_of demo_kernel = ''/tmp/elm/index.js''"
    by (simp_all add: infile_of_def outfile_of_def demo_kernel_def init_kernel_def path_join_def)
  have entered: "snd (copy_elm_package_file_to_tempdir (stub_env s) demo_kernel empty_world) = Inr ()"
    for s
    by (simp add: copy_elm_package_file_to_tempdir_def empty_world_def)
  have raised: "snd (copy_elm_package_file_to_tempdir
      ((stub_env good_stub)\<lparr>copy_fault := Some disk_full\<rparr>) demo_kernel manifest_world) \<noteq> Inr ()"
    by (simp add: copy_elm_package_file_to_tempdir_def shutil_copy_def manifest_world_def
        stub_env_def disk_full_def)
  have permitted: "remove_refused (stub_env s) p = None" for s p
    by (simp add: stub_env_def)
  have absent: "files manifest_world ''/tmp/elm/input.elm'' = None"
    by (simp add: manifest_world_def empty_world_def)
  note good = scratch_files_removed [where e = "stub_env good_stub" and k = demo_kernel
      and w = empty_world and code = "''module Main''"]
  note failing = scratch_files_removed [where e = "stub_env failing_stub" and k = demo_kernel
      and w = empty_world and code = "''module Main''"]
  note missing = scratch_files_removed [where e = "stub_env missing_stub" and k = demo_kernel
      and w = empty_world and code = "''module Main''"]
  note full = scratch_files_removed [where e = "(stub_env good_stub)\<lparr>copy_fault := Some disk_full\<rparr>"
      and k = demo_kernel and w = manifest_world and code = "''module Main''"]
  from good entered [of good_stub] permitted [of good_stub "infile_of demo_kernel"]
  have "files (fst (compile (stub_env good_stub) demo_kernel ''module Main'' empty_world))
      (infile_of demo_kernel) = None"
    by blast
  moreover from good entered [of good_stub] permitted [of good_stub "outfile_of demo_kernel"]
  have "files (fst (compile (stub_env good_stub) demo_kernel ''module Main'' empty_world))
      (outfile_of demo_kernel) = None"
    by blast
  moreover from failing entered [of failing_stub] permitted [of failing_stub "infile_of demo_kernel"]
  have "files (fst (compile (stub_env failing_stub) demo_kernel ''module Main'' empty_world))
      (infile_of demo_kernel) = None"
    by blast
  moreover from missing entered [of missing_stub] permitted [of missing_stub "infile_of demo_kernel"]
  have "files (fst (compile (stub_env missing_stub) demo_kernel ''module Main'' empty_world))
      (infile_of demo_kernel) = None"
    by blast
  moreover from full raised
  have "files (fst (compile ((stub_env good_stub)\<lparr>copy_fault := Some disk_full\<rparr>) demo_kernel
      ''module Main'' manifest_world)) (infile_of demo_kernel) =
      files manifest_world (infile_of demo_kernel)"
    by blast
  ultimately show ?thesis
    using absent by (simp add: paths)
qed

text \<open>
  C7 as stated fails on two exit paths. When the copy of the manifest raises another error
  than a missing permission, an input file that is present is still there after the
  call. When the compiler has written the output file and its removal is refused, the
  output file is still there after the call, which returns normally.
\<close>

theorem scratch_files_left_counterexample:
  "snd (compile ((stub_env good_stub)\<lparr>copy_fault := Some disk_full\<rparr>) demo_kernel
     ''module Main'' stale_world) = Inl disk_full \<and>
   files (fst (compile ((stub_env good_stub)\<lparr>copy_fault := Some disk_full\<rparr>) demo_kernel
     ''module Main'' stale_world)) ''/tmp/elm/input.elm'' = Some ''stale'' \<and>
   snd (compile ((stub_env good_stub)\<lparr>remove_refused := (\<lambda>path. Some not_permitted)\<rparr>)
     demo_kernel ''module Main'' empty_world) = Inr () \<and>
   files (fst (compile ((stub_env good_stub)\<lparr>remove_refused := (\<lambda>path. Some not_permitted)\<rparr>)
     demo_kernel ''module Main'' empty_world)) ''/tmp/elm/index.js'' = Some ''var x = 1;''"
  by code_simp

section \<open>The manifest step: claim C8\<close>

text \<open>
  C8. When the working directory holds no project manifest, the manifest step changes
  nothing and raises nothing: no display message, no error. When the manifest is there and
  its copy fails with a permission error, the step emits one error display message and
  returns normally; the call is not aborted and the compile proceeds: \<^verbatim>\<open>_compile\<close> goes on
  with the \<^verbatim>\<open>with\<close> statement from the world that holds that message, and runs the
  compiler once the input file is written.
\<close>

theorem manifest_copy_step:
  "(files w ''elm-package.json'' = None \<longrightarrow>
      copy_elm_package_file_to_tempdir e k w = (w, Inr ())) \<and>
   (files w ''elm-package.json'' \<noteq> None \<and> copy_fault e = Some x \<and> cls x = PermissionError \<longrightarrow>
      snd (copy_elm_package_file_to_tempdir e k w) = Inr () \<and>
      files (fst (copy_elm_package_file_to_tempdir e k w)) =
        (case copy_residue e of
           None \<Rightarrow> files w
         | Some left \<Rightarrow> (files w)(manifest_copy_of k \<mapsto> left)) \<and>
      iopub (fst (copy_elm_package_file_to_tempdir e k w)) =
        iopub w @
        [display ''text/html''
           (''<pre>Permission error: could not copy elm-package.json to '' @ tempdir k @ ''</pre>'')] \<and>
      compile e k code w =
        tempfile e k ''input.elm'' (\<lambda>infile.
          tempfile e k ''index.js'' (\<lambda>outfile.
            compile_body e k code infile outfile))
          (fst (copy_elm_package_file_to_tempdir e k w)) \<and>
      (write_fault e = None \<longrightarrow>
         invocations (fst (compile e k code w)) =
           invocations w @
           [\<lparr>args = elm_make_command k, cwd = tempdir k,
             seen = (files (fst (copy_elm_package_file_to_tempdir e k w)))
                      (infile_of k \<mapsto> code)\<rparr>]))"
proof (intro conjI impI)
  assume "files w ''elm-package.json'' = None"
  then show "copy_elm_package_file_to_tempdir e k w = (w, Inr ())"
    by (simp add: copy_elm_package_file_to_tempdir_def)
next
  assume denied: "files w ''elm-package.json'' \<noteq> None \<and> copy_fault e = Some x \<and>
      cls x = PermissionError"
  then have manifest: "files w ''elm-package.json'' \<noteq> None" and fault: "copy_fault e = Some x"
    and permission: "cls x = PermissionError"
    by simp_all
  note step = copy_stage_refused [OF manifest fault permission]
  show entered: "snd (copy_elm_package_file_to_tempdir e k w) = Inr ()"
    by (rule step(1))
  show "files (fst (copy_elm_package_file_to_tempdir e k w)) =
        (case copy_residue e of
           None \<Rightarrow> files w
         | Some left \<Rightarrow> (files w)(manifest_copy_of k \<mapsto> left))"
    by (rule step(3))
  show "iopub (fst (copy_elm_package_file_to_tempdir e k w)) =
        iopub w @
        [display ''text/html''
           (''<pre>Permission error: could not copy elm-package.json to '' @ tempdir k @ ''</pre>'')]"
    by (rule step(2))
  show "compile e k code w =
        tempfile e k ''input.elm'' (\<lambda>infile.
          tempfile e k ''index.js'' (\<lambda>outfile.
            compile_body e k code infile outfile))
          (fst (copy_elm_package_file_to_tempdir e k w))"
    using entered
    by (cases "copy_elm_package_file_to_tempdir e k w") (simp add: compile_def)
  assume "write_fault e = None"
  then show "invocations (fst (compile e k code w)) =
           invocations w @
           [\<lparr>args = elm_make_command k, cwd = tempdir k,
             seen = (files (fst (copy_elm_package_file_to_tempdir e k w)))
                      (infile_of k \<mapsto> code)\<rparr>]"
    using entered by (simp add: compile_invocations)
qed

theorem manifest_copy_step_witness:
  "copy_elm_package_file_to_tempdir (stub_env good_stub) demo_kernel empty_world =
     (empty_world, Inr ()) \<and>
   snd (copy_elm_package_file_to_tempdir
          ((stub_env good_stub)\<lparr>copy_fault := Some permission_denied\<rparr>)
          demo_kernel manifest_world) = Inr () \<and>
   iopub (fst (copy_elm_package_file_to_tempdir
          ((stub_env good_stub)\<lparr>copy_fault := Some permission_denied\<rparr>)
          demo_kernel manifest_world)) =
     [display ''text/html''
        ''<pre>Permission error: could not copy elm-package.json to /tmp/elm</pre>''] \<and>
   length (invocations (fst (compile
          ((stub_env good_stub)\<lparr>copy_fault := Some permission_denied\<rparr>)
          demo_kernel ''module Main'' manifest_world))) = 1"
proof -
  have absent: "files empty_world ''elm-package.json'' = None"
    by (simp add: empty_world_def)
  have denied: "files manifest_world ''elm-package.json'' \<noteq> None \<and>
      copy_fault ((stub_env good_stub)\<lparr>copy_fault := Some permission_denied\<rparr>) =
        Some permission_denied \<and>
      cls permission_denied = PermissionError"
    by (simp add: manifest_world_def permission_denied_def)
  have wrote: "write_fault ((stub_env good_stub)\<lparr>copy_fault := Some permission_denied\<rparr>) = None"
    by (simp add: stub_env_def)
  have quiet: "iopub manifest_world = []" "invocations manifest_world = []"
    "tempdir demo_kernel = ''/tmp/elm''"
    by (simp_all add: manifest_world_def empty_world_def demo_kernel_def init_kernel_def)
  let ?e = "(stub_env good_stub)\<lparr>copy_fault := Some permission_denied\<rparr>"
  note none = manifest_copy_step [where w = empty_world and e = "stub_env good_stub"
      and k = demo_kernel]
  note refused = manifest_copy_step [where w = manifest_world and e = ?e
      and x = permission_denied and k = demo_kernel and code = "''module Main''"]
  from none absent
  have "copy_elm_package_file_to_tempdir (stub_env good_stub) demo_kernel empty_world =
      (empty_world, Inr ())"
    by blast
  moreover from refused denied
  have "snd (copy_elm_package_file_to_tempdir ?e demo_kernel manifest_world) = Inr ()"
    by blast
  moreover from refused denied
  have "iopub (fst (copy_elm_package_file_to_tempdir ?e demo_kernel manifest_world)) =
      iopub manifest_world @
      [display ''text/html''
         (''<pre>Permission error: could not copy elm-package.json to '' @ tempdir demo_kernel @
          ''</pre>'')]"
    by blast
  then have "iopub (fst (copy_elm_package_file_to_tempdir ?e demo_kernel manifest_world)) =
      [display ''text/html''
         ''<pre>Permission error: could not copy elm-package.json to /tmp/elm</pre>'']"
    by (simp add: quiet)
  moreover from refused denied wrote
  have "invocations (fst (compile ?e demo_kernel ''module Main'' manifest_world)) =
      invocations manifest_world @
      [\<lparr>args = elm_make_command demo_kernel, cwd = tempdir demo_kernel,
        seen = (files (fst (copy_elm_package_file_to_tempdir ?e demo_kernel manifest_world)))
                 (infile_of demo_kernel \<mapsto> ''module Main'')\<rparr>]"
    by blast
  then have "length (invocations (fst (compile ?e demo_kernel ''module Main'' manifest_world))) = 1"
    by (simp add: quiet)
  ultimately show ?thesis
    by blast
qed

section \<open>The assertion of the trigger: claim C9\<close>

text \<open>
  C9. On an empty buffer the trigger fails with its assertion. The execute operation
  appends the submitted cell before it evaluates the trigger, so the trigger is evaluated
  on a buffer that is not empty and returns a truth value, and the assertion failure is
  never what the execute call raises.
\<close>

theorem trigger_assertion_unreachable:
  "should_compile (k\<lparr>code_buf := []\<rparr>) = Inl assertion_failure \<and>
   cls assertion_failure = AssertionError \<and>
   code_buf (k\<lparr>code_buf := code_buf k @ [code]\<rparr>) \<noteq> [] \<and>
   should_compile (k\<lparr>code_buf := code_buf k @ [code]\<rparr>) = Inr (cell_fires code) \<and>
   snd (snd (do_execute e k w code)) \<noteq> Inl assertion_failure"
proof -
  have "snd (snd (do_execute e k w code)) \<noteq> Inl assertion_failure"
  proof (cases "cell_fires code")
    case False
    then show ?thesis by (simp add: do_execute_quiet)
  next
    case True
    have "is_Exception (cls assertion_failure)"
      by (simp add: assertion_failure_def)
    then show ?thesis
      by (auto simp: do_execute_fires [OF True] split: prod.splits sum.splits)
  qed
  then show ?thesis
    by (simp add: should_compile_cell_fires) (simp add: should_compile_def assertion_failure_def)
qed

section \<open>The buffer over a sequence of cells: claim C6\<close>

lemma since_last_trigger_snoc:
  "since_last_trigger (cells @ [c]) = (if cell_fires c then [] else since_last_trigger cells @ [c])"
  by (simp add: since_last_trigger_def)

lemma do_execute_kernel:
  "code_buf (fst (do_execute e k w code)) = (if cell_fires code then [] else code_buf k @ [code])"
  "tempdir (fst (do_execute e k w code)) = tempdir k"
  by (cases "cell_fires code";
      simp add: do_execute_fires do_execute_quiet split: prod.splits sum.splits)+

lemma do_execute_invocations:
  "invocations (fst (snd (do_execute e k w code))) =
     invocations w @
     (if cell_fires code \<and>
         snd (copy_elm_package_file_to_tempdir e (k\<lparr>code_buf := []\<rparr>) w) = Inr () \<and>
         write_fault e = None
      then [\<lparr>args = elm_make_command k, cwd = tempdir k,
             seen = (files (fst (copy_elm_package_file_to_tempdir e (k\<lparr>code_buf := []\<rparr>) w)))
                      (infile_of k \<mapsto> join [LF] (code_buf k @ [code]))\<rparr>]
      else [])"
proof (cases "cell_fires code")
  case False
  then show ?thesis
    by (simp add: do_execute_quiet)
next
  case True
  obtain w1 r where c: "compile e (k\<lparr>code_buf := []\<rparr>) (join [LF] (code_buf k @ [code])) w = (w1, r)"
    by (cases "compile e (k\<lparr>code_buf := []\<rparr>) (join [LF] (code_buf k @ [code])) w")
  have "invocations (fst (snd (do_execute e k w code))) = invocations w1"
    by (simp add: do_execute_fires [OF True] c split: sum.splits)
  also have "\<dots> = invocations (fst (compile e (k\<lparr>code_buf := []\<rparr>)
      (join [LF] (code_buf k @ [code])) w))"
    by (simp add: c)
  finally show ?thesis
    using True by (simp add: compile_invocations)
qed

lemma run_cells_snoc:
  "run_cells (reqs @ [(e, n, code)]) k w =
     (case run_cells reqs k w of
        (k1, w1) \<Rightarrow>
          (case do_execute e (k1\<lparr>execution_count := n\<rparr>) w1 code of
             (k2, w2, r) \<Rightarrow> (k2, w2)))"
  by (induction reqs k w rule: run_cells.induct) (simp_all split: prod.splits)

lemma run_cells_kernel:
  "tempdir (fst (run_cells reqs k w)) = tempdir k"
proof (induction reqs arbitrary: k w rule: rev_induct)
  case Nil
  show ?case by simp
next
  case (snoc r reqs)
  obtain e n code where r: "r = (e, n, code)"
    by (cases r)
  obtain k1 w1 where before: "run_cells reqs k w = (k1, w1)"
    by (cases "run_cells reqs k w")
  have "tempdir k1 = tempdir k"
    using snoc.IH [of k w] by (simp add: before)
  moreover have "fst (run_cells (reqs @ [r]) k w) =
      fst (do_execute e (k1\<lparr>execution_count := n\<rparr>) w1 code)"
    by (simp add: r run_cells_snoc before split: prod.splits)
  ultimately show ?case
    by (simp add: do_execute_kernel)
qed

lemma run_cells_buffer:
  assumes "code_buf k = []"
  shows "code_buf (fst (run_cells reqs k w)) = since_last_trigger (map (\<lambda>r. snd (snd r)) reqs)"
proof (induction reqs rule: rev_induct)
  case Nil
  show ?case
    by (simp add: assms since_last_trigger_def)
next
  case (snoc r reqs)
  obtain e n code where r: "r = (e, n, code)"
    by (cases r)
  obtain k1 w1 where before: "run_cells reqs k w = (k1, w1)"
    by (cases "run_cells reqs k w")
  have "code_buf k1 = since_last_trigger (map (\<lambda>r. snd (snd r)) reqs)"
    using snoc.IH by (simp add: before)
  moreover have "fst (run_cells (reqs @ [r]) k w) =
      fst (do_execute e (k1\<lparr>execution_count := n\<rparr>) w1 code)"
    by (simp add: r run_cells_snoc before split: prod.splits)
  ultimately show ?case
    by (simp add: do_execute_kernel since_last_trigger_snoc r)
qed

text \<open>
  C6. For every sequence of submitted cells, starting from the kernel as constructed, the
  pending buffer after the last submission holds, in order, exactly the cells submitted
  since the last trigger-firing cell; the firing cell itself went into the unit it
  triggered. When a further cell is submitted, the compiler is called only if that cell
  fires, and the input file it then finds holds the buffered cells and the new cell joined
  by line feeds: the cells since the previous firing cell, the new one included.
\<close>

theorem pending_buffer_and_unit:
  fixes reqs :: "request list" and k :: kernel and w :: world and e :: env and n :: int
  defines "cells \<equiv> map (\<lambda>r. snd (snd r)) reqs"
  defines "k1 \<equiv> (fst (run_cells reqs k w))\<lparr>execution_count := n\<rparr>"
  defines "w1 \<equiv> snd (run_cells reqs k w)"
  assumes fresh: "code_buf k = []"
  shows "code_buf (fst (run_cells reqs k w)) = since_last_trigger cells \<and>
         code_buf (fst (run_cells (reqs @ [(e, n, code)]) k w)) =
           (if cell_fires code then [] else since_last_trigger cells @ [code]) \<and>
         invocations (snd (run_cells (reqs @ [(e, n, code)]) k w)) =
           invocations w1 @
           (if cell_fires code \<and>
               snd (copy_elm_package_file_to_tempdir e (k1\<lparr>code_buf := []\<rparr>) w1) = Inr () \<and>
               write_fault e = None
            then [\<lparr>args = elm_make_command k, cwd = tempdir k,
                   seen = (files (fst (copy_elm_package_file_to_tempdir e (k1\<lparr>code_buf := []\<rparr>) w1)))
                            (infile_of k \<mapsto> join [LF] (since_last_trigger cells @ [code]))\<rparr>]
            else [])"
proof -
  obtain k0 w0 where before: "run_cells reqs k w = (k0, w0)"
    by (cases "run_cells reqs k w")
  have buf: "code_buf k0 = since_last_trigger cells"
    using run_cells_buffer [OF fresh, of reqs w] by (simp add: before cells_def)
  have dir: "tempdir k0 = tempdir k"
    using run_cells_kernel [of reqs k w] by (simp add: before)
  have same: "infile_of k1 = infile_of k" "elm_make_command k1 = elm_make_command k"
    "tempdir k1 = tempdir k" "code_buf k1 = since_last_trigger cells"
    by (simp_all add: k1_def before dir buf infile_of_def outfile_of_def elm_make_command_def)
  have after: "run_cells (reqs @ [(e, n, code)]) k w =
      (fst (do_execute e k1 w1 code), fst (snd (do_execute e k1 w1 code)))"
    by (simp add: run_cells_snoc before k1_def w1_def split: prod.splits)
  have "code_buf (fst (run_cells reqs k w)) = since_last_trigger cells"
    by (simp add: before buf)
  moreover have "code_buf (fst (run_cells (reqs @ [(e, n, code)]) k w)) =
      (if cell_fires code then [] else since_last_trigger cells @ [code])"
    by (simp add: after do_execute_kernel same)
  moreover have "invocations (snd (run_cells (reqs @ [(e, n, code)]) k w)) =
      invocations w1 @
      (if cell_fires code \<and>
          snd (copy_elm_package_file_to_tempdir e (k1\<lparr>code_buf := []\<rparr>) w1) = Inr () \<and>
          write_fault e = None
       then [\<lparr>args = elm_make_command k, cwd = tempdir k,
              seen = (files (fst (copy_elm_package_file_to_tempdir e (k1\<lparr>code_buf := []\<rparr>) w1)))
                       (infile_of k \<mapsto> join [LF] (since_last_trigger cells @ [code]))\<rparr>]
       else [])"
    by (simp add: after do_execute_invocations same)
  ultimately show ?thesis
    by blast
qed


theorem pending_buffer_and_unit_witness:
  "code_buf demo_kernel = [] \<and>
   code_buf (fst (run_cells
      [(stub_env good_stub, 1, ''a''), (stub_env failing_stub, 2, ''-- compile-code''),
       (stub_env good_stub, 3, ''c'')] demo_kernel empty_world)) = [''c''] \<and>
   code_buf (fst (run_cells
      ([(stub_env good_stub, 1, ''a''), (stub_env failing_stub, 2, ''-- compile-code''),
        (stub_env good_stub, 3, ''c'')] @
       [(stub_env good_stub, 4, ''d'' @ [LF] @ ''-- compile-code'')])
      demo_kernel empty_world)) = [] \<and>
   map (\<lambda>i. seen i ''/tmp/elm/input.elm'') (invocations (snd (run_cells
      ([(stub_env good_stub, 1, ''a''), (stub_env failing_stub, 2, ''-- compile-code''),
        (stub_env good_stub, 3, ''c'')] @
       [(stub_env good_stub, 4, ''d'' @ [LF] @ ''-- compile-code'')])
      demo_kernel empty_world))) =
     [Some (''a'' @ [LF] @ ''-- compile-code''),
      Some (''c'' @ [LF] @ ''d'' @ [LF] @ ''-- compile-code'')]"
proof -
  have fresh: "code_buf demo_kernel = []"
    by (simp add: demo_kernel_def init_kernel_def)
  have pending: "since_last_trigger [''a'', ''-- compile-code'', ''c''] = [''c'']"
    by code_simp
  have fires: "cell_fires (''d'' @ [LF] @ ''-- compile-code'')"
    by code_simp
  note t = pending_buffer_and_unit [OF fresh,
      where reqs = "[(stub_env good_stub, 1, ''a''), (stub_env failing_stub, 2, ''-- compile-code''),
        (stub_env good_stub, 3, ''c'')]"
      and w = empty_world and e = "stub_env good_stub" and n = 4
      and code = "''d'' @ [LF] @ ''-- compile-code''"]
  from t have "code_buf (fst (run_cells
      [(stub_env good_stub, 1, ''a''), (stub_env failing_stub, 2, ''-- compile-code''),
       (stub_env good_stub, 3, ''c'')] demo_kernel empty_world)) = [''c'']"
    by (simp add: pending)
  moreover from t fires have "code_buf (fst (run_cells
      ([(stub_env good_stub, 1, ''a''), (stub_env failing_stub, 2, ''-- compile-code''),
        (stub_env good_stub, 3, ''c'')] @
       [(stub_env good_stub, 4, ''d'' @ [LF] @ ''-- compile-code'')])
      demo_kernel empty_world)) = []"
    by simp
  moreover have "map (\<lambda>i. seen i ''/tmp/elm/input.elm'') (invocations (snd (run_cells
      ([(stub_env good_stub, 1, ''a''), (stub_env failing_stub, 2, ''-- compile-code''),
        (stub_env good_stub, 3, ''c'')] @
       [(stub_env good_stub, 4, ''d'' @ [LF] @ ''-- compile-code'')])
      demo_kernel empty_world))) =
     [Some (''a'' @ [LF] @ ''-- compile-code''),
      Some (''c'' @ [LF] @ ''d'' @ [LF] @ ''-- compile-code'')]"
    by code_simp
  ultimately show ?thesis
    using fresh by blast
qed

end
